theory Spec2Isabelle
  imports Main "HOL-Library.Word"
begin

section \<open>The NFTagent contract\<close>

text \<open>
  A shallow embedding of the Solidity contract \<open>NFTagent\<close> (an ERC721 token with
  lazy minting by signature). Storage is a record that every external function
  takes and returns; a \<open>require\<close> that fails, and a checked arithmetic operation
  that overflows, make the function return \<open>Inl\<close> of the error, and the
  call then leaves the storage as it was.
\<close>

subsection \<open>Values\<close>

type_synonym uint256 = "256 word"
type_synonym address = "160 word"
type_synonym bytes = "8 word list"

text \<open>The four events the contract declares, each with its single argument.\<close>

datatype event =
    IdRevoked uint256
  | IdFloorSet uint256
  | Receipt uint256
  | Withdrawal uint256

text \<open>
  A failed \<open>require\<close> reverts with its reason string (the empty string when the
  source gives none); checked arithmetic of Solidity 0.8 panics with code 0x11.
\<close>

datatype error = Revert string | Panic nat

definition checked_add :: "uint256 \<Rightarrow> uint256 \<Rightarrow> error + uint256" where
  "checked_add a b = (if unat a + unat b < 2 ^ 256 then Inr (a + b) else Inl (Panic 17))"

definition checked_sub :: "uint256 \<Rightarrow> uint256 \<Rightarrow> error + uint256" where
  "checked_sub a b = (if unat b \<le> unat a then Inr (a - b) else Inl (Panic 17))"

subsection \<open>Storage\<close>

text \<open>
  The contract's own variables are \<open>owner\<close>, \<open>totalSupply\<close>, \<open>idFloor\<close>,
  \<open>tokenURIs\<close> and \<open>revokedIds\<close>. The fields \<open>erc_owners\<close>,
  \<open>erc_tokenApprovals\<close> and \<open>erc_operatorApprovals\<close> are the storage of the inherited
  ERC721 base contract (there \<open>_owners\<close>, \<open>_tokenApprovals\<close>,
  \<open>_operatorApprovals\<close>); its per-holder token count \<open>_balances\<close> is read by no
  function of NFTagent and is left out. \<open>balance\<close> is the ether held by the contract,
  \<open>events\<close> the log of the contract's own events, oldest first, and \<open>sent\<close> the value
  transfers the contract has made. A Solidity mapping is a total function whose default
  is the zero value.
\<close>

record state =
  owner :: address
  totalSupply :: uint256
  idFloor :: uint256
  tokenURIs :: "uint256 \<Rightarrow> string"
  revokedIds :: "uint256 \<Rightarrow> bool"
  erc_owners :: "uint256 \<Rightarrow> address"
  erc_tokenApprovals :: "uint256 \<Rightarrow> address"
  erc_operatorApprovals :: "address \<Rightarrow> address \<Rightarrow> bool"
  balance :: uint256
  events :: "event list"
  sent :: "(address \<times> uint256) list"

text \<open>
  What the contract asks of the world outside it:
  \<^item> \<open>recover weiPrice id uri signature\<close> is
    \<open>ECDSA.recover(_hash(weiPrice, id, uri), signature)\<close>: the signer of the typed-data
    digest of the three terms, or the error with which the recovery reverts on a
    malformed signature;
  \<^item> \<open>checkOnERC721Received from to id\<close> is what the base contract's
    \<open>_checkOnERC721Received\<close> comes to when it calls the recipient's \<open>onERC721Received\<close>:
    \<open>Inr True\<close> when the recipient has no code or returns the expected selector,
    \<open>Inr False\<close> when it returns something else, \<open>Inl\<close> of the reason when the
    recipient's function reverts (the base contract passes the reason on, or gives its own
    when there is none);
  \<^item> \<open>call_value to amount\<close> is the success flag of the low-level call that sends
    \<open>amount\<close> to \<open>to\<close>.
  While it is being called, the recipient of a token or of a payment has control and may
  call the contract back. What it has done to the storage by then is the argument
  \<open>hook\<close> of the functions that call out: a function from the storage at the moment of
  the call to the storage when the call returns. It is the identity for an account
  without code; in a transaction (see \<open>exec\<close> below) it is the run of the calls that the
  account makes.
\<close>

record env =
  recover :: "uint256 \<Rightarrow> uint256 \<Rightarrow> string \<Rightarrow> bytes \<Rightarrow> error + address"
  checkOnERC721Received :: "address \<Rightarrow> address \<Rightarrow> uint256 \<Rightarrow> error + bool"
  call_value :: "address \<Rightarrow> uint256 \<Rightarrow> bool"

text \<open>The constructor: the deployer becomes the owner; \<open>funds\<close> is what the address held.\<close>

definition init :: "address \<Rightarrow> uint256 \<Rightarrow> state" where
  "init deployer funds =
     \<lparr>owner = deployer, totalSupply = 0, idFloor = 0,
      tokenURIs = (\<lambda>_. []), revokedIds = (\<lambda>_. False),
      erc_owners = (\<lambda>_. 0), erc_tokenApprovals = (\<lambda>_. 0),
      erc_operatorApprovals = (\<lambda>_ _. False),
      balance = funds, events = [], sent = []\<rparr>"

subsection \<open>The inherited ERC721 base\<close>

text \<open>
  The base contract comes from the OpenZeppelin library that the source imports. Its
  functions are modelled as far as NFTagent calls them or exposes them: ownership,
  approvals, mint, burn and transfer, with the library's checks in the library's order.
\<close>

definition exists_token :: "state \<Rightarrow> uint256 \<Rightarrow> bool" where
  "exists_token s tid = (erc_owners s tid \<noteq> 0)"

definition erc721_ownerOf :: "state \<Rightarrow> uint256 \<Rightarrow> error + address" where
  "erc721_ownerOf s tid =
     (if erc_owners s tid = 0 then Inl (Revert ''ERC721: owner query for nonexistent token'')
      else Inr (erc_owners s tid))"

definition erc721_isApprovedOrOwner :: "state \<Rightarrow> address \<Rightarrow> uint256 \<Rightarrow> error + bool" where
  "erc721_isApprovedOrOwner s spender tid =
     (if \<not> exists_token s tid then Inl (Revert ''ERC721: operator query for nonexistent token'')
      else Inr (spender = erc_owners s tid \<or> erc_tokenApprovals s tid = spender
                \<or> erc_operatorApprovals s (erc_owners s tid) spender))"

definition erc721_mint :: "address \<Rightarrow> uint256 \<Rightarrow> state \<Rightarrow> error + state" where
  "erc721_mint to tid s =
     (if to = 0 then Inl (Revert ''ERC721: mint to the zero address'')
      else if exists_token s tid then Inl (Revert ''ERC721: token already minted'')
      else Inr (s\<lparr>erc_owners := (erc_owners s)(tid := to)\<rparr>))"

text \<open>
  \<open>_safeMint(to, tokenId)\<close>: the token is minted, then the recipient is called; the
  storage goes on from what the recipient left (\<open>hook s1\<close>).
\<close>

definition erc721_safeMint ::
  "env \<Rightarrow> (state \<Rightarrow> state) \<Rightarrow> address \<Rightarrow> uint256 \<Rightarrow> state \<Rightarrow> error + state" where
  "erc721_safeMint e hook to tid s =
     (case erc721_mint to tid s of
        Inl err \<Rightarrow> Inl err
      | Inr s1 \<Rightarrow>
          (case checkOnERC721Received e 0 to tid of
             Inl err \<Rightarrow> Inl err
           | Inr ok \<Rightarrow>
               if \<not> ok
               then Inl (Revert ''ERC721: transfer to non ERC721Receiver implementer'')
               else Inr (hook s1)))"

definition erc721_burn :: "uint256 \<Rightarrow> state \<Rightarrow> error + state" where
  "erc721_burn tid s =
     (case erc721_ownerOf s tid of
        Inl err \<Rightarrow> Inl err
      | Inr holder \<Rightarrow>
          Inr (s\<lparr>erc_tokenApprovals := (erc_tokenApprovals s)(tid := 0),
                 erc_owners := (erc_owners s)(tid := 0)\<rparr>))"

definition erc721_transfer :: "address \<Rightarrow> address \<Rightarrow> uint256 \<Rightarrow> state \<Rightarrow> error + state" where
  "erc721_transfer from to tid s =
     (case erc721_ownerOf s tid of
        Inl err \<Rightarrow> Inl err
      | Inr holder \<Rightarrow>
          if holder \<noteq> from then Inl (Revert ''ERC721: transfer of token that is not own'')
          else if to = 0 then Inl (Revert ''ERC721: transfer to the zero address'')
          else Inr (s\<lparr>erc_tokenApprovals := (erc_tokenApprovals s)(tid := 0),
                      erc_owners := (erc_owners s)(tid := to)\<rparr>))"

definition approve :: "address \<Rightarrow> address \<Rightarrow> uint256 \<Rightarrow> state \<Rightarrow> error + state" where
  "approve caller to tid s =
     (case erc721_ownerOf s tid of
        Inl err \<Rightarrow> Inl err
      | Inr holder \<Rightarrow>
          if to = holder then Inl (Revert ''ERC721: approval to current owner'')
          else if \<not> (caller = holder \<or> erc_operatorApprovals s holder caller)
          then Inl (Revert ''ERC721: approve caller is not owner nor approved for all'')
          else Inr (s\<lparr>erc_tokenApprovals := (erc_tokenApprovals s)(tid := to)\<rparr>))"

definition setApprovalForAll :: "address \<Rightarrow> address \<Rightarrow> bool \<Rightarrow> state \<Rightarrow> error + state" where
  "setApprovalForAll caller operator approved s =
     (if operator = caller then Inl (Revert ''ERC721: approve to caller'')
      else Inr (s\<lparr>erc_operatorApprovals :=
                    (erc_operatorApprovals s)(caller := (erc_operatorApprovals s caller)(operator := approved))\<rparr>))"

definition transferFrom :: "address \<Rightarrow> address \<Rightarrow> address \<Rightarrow> uint256 \<Rightarrow> state \<Rightarrow> error + state" where
  "transferFrom caller from to tid s =
     (case erc721_isApprovedOrOwner s caller tid of
        Inl err \<Rightarrow> Inl err
      | Inr ok \<Rightarrow>
          if \<not> ok then Inl (Revert ''ERC721: transfer caller is not owner nor approved'')
          else erc721_transfer from to tid s)"

definition safeTransferFrom ::
  "env \<Rightarrow> (state \<Rightarrow> state) \<Rightarrow> address \<Rightarrow> address \<Rightarrow> address \<Rightarrow> uint256 \<Rightarrow> state
     \<Rightarrow> error + state" where
  "safeTransferFrom e hook caller from to tid s =
     (case erc721_isApprovedOrOwner s caller tid of
        Inl err \<Rightarrow> Inl err
      | Inr ok \<Rightarrow>
          if \<not> ok then Inl (Revert ''ERC721: transfer caller is not owner nor approved'')
          else (case erc721_transfer from to tid s of
                  Inl err \<Rightarrow> Inl err
                | Inr s1 \<Rightarrow>
                    (case checkOnERC721Received e from to tid of
                       Inl err \<Rightarrow> Inl err
                     | Inr accepted \<Rightarrow>
                         if \<not> accepted
                         then Inl (Revert ''ERC721: transfer to non ERC721Receiver implementer'')
                         else Inr (hook s1))))"

subsection \<open>The contract's own functions\<close>

text \<open>
  \<open>receive()\<close>: the value sent is added to the contract's balance and reported. (Amounts
  of ether stay far below \<open>2 ^ 256\<close>, so the word addition of the model does not wrap on
  a real chain; no property below depends on it.)
\<close>

definition receive :: "uint256 \<Rightarrow> state \<Rightarrow> error + state" where
  "receive val s =
     (let s0 = s\<lparr>balance := balance s + val\<rparr>
      in Inr (s0\<lparr>events := events s0 @ [Receipt val]\<rparr>))"

text \<open>
  \<open>withdraw()\<close>: the low-level call moves the whole balance to the caller and runs the
  caller's code, which has control until the call returns (\<open>hook\<close>); when the call
  fails nothing has moved and nothing the caller's code did remains.
\<close>

definition withdraw :: "env \<Rightarrow> (state \<Rightarrow> state) \<Rightarrow> address \<Rightarrow> state \<Rightarrow> error + state" where
  "withdraw e hook caller s =
     (if caller \<noteq> owner s then Inl (Revert ''unauthorized to withdraw'')
      else
        let bal = balance s;
            success = call_value e caller bal;
            s1 = (if success
                  then hook (s\<lparr>balance := balance s - bal, sent := sent s @ [(caller, bal)]\<rparr>)
                  else s)
        in if \<not> success then Inl (Revert ''transfer failed'')
           else Inr (s1\<lparr>events := events s1 @ [Withdrawal bal]\<rparr>))"

text \<open>\<open>vacant(id)\<close>: three requirements in the order of the source, then \<open>true\<close>.\<close>

definition vacant :: "state \<Rightarrow> uint256 \<Rightarrow> error + bool" where
  "vacant s tid =
     (if exists_token s tid then Inl (Revert ''tokenId already minted'')
      else if \<not> idFloor s \<le> tid then Inl (Revert ''tokenId below floor'')
      else if revokedIds s tid then Inl (Revert ''tokenId revoked or burnt'')
      else Inr True)"

text \<open>\<open>_setTokenURI(id, uri)\<close>.\<close>

definition internal_setTokenURI :: "uint256 \<Rightarrow> string \<Rightarrow> state \<Rightarrow> error + state" where
  "internal_setTokenURI tid uri s =
     (if length uri = 0 then Inl (Revert ''tokenURI cannot be empty'')
      else Inr (s\<lparr>tokenURIs := (tokenURIs s)(tid := uri)\<rparr>))"

text \<open>
  \<open>_mint(recipient, id, uri)\<close>: safe mint of the base, in which the recipient is called,
  then the URI, then the counter.
\<close>

definition internal_mint ::
  "env \<Rightarrow> (state \<Rightarrow> state) \<Rightarrow> address \<Rightarrow> uint256 \<Rightarrow> string \<Rightarrow> state \<Rightarrow> error + state" where
  "internal_mint e hook recipient tid uri s =
     (case erc721_safeMint e hook recipient tid s of
        Inl err \<Rightarrow> Inl err
      | Inr s1 \<Rightarrow>
          (case internal_setTokenURI tid uri s1 of
             Inl err \<Rightarrow> Inl err
           | Inr s2 \<Rightarrow>
               (case checked_add (totalSupply s2) 1 of
                  Inl err \<Rightarrow> Inl err
                | Inr n \<Rightarrow> Inr (s2\<lparr>totalSupply := n\<rparr>))))"

text \<open>\<open>_burn(id)\<close>: burn of the base, then the URI is deleted, the id revoked, the counter
  decremented.\<close>

definition internal_burn :: "uint256 \<Rightarrow> state \<Rightarrow> error + state" where
  "internal_burn tid s =
     (case erc721_burn tid s of
        Inl err \<Rightarrow> Inl err
      | Inr s1 \<Rightarrow>
          let s2 = s1\<lparr>tokenURIs := (tokenURIs s1)(tid := [])\<rparr>;
              s3 = s2\<lparr>revokedIds := (revokedIds s2)(tid := True)\<rparr>
          in (case checked_sub (totalSupply s3) 1 of
                Inl err \<Rightarrow> Inl err
              | Inr n \<Rightarrow> Inr (s3\<lparr>totalSupply := n\<rparr>)))"

text \<open>\<open>mintAuthorized(recipient, id, uri)\<close>.\<close>

definition mintAuthorized ::
  "env \<Rightarrow> (state \<Rightarrow> state) \<Rightarrow> address \<Rightarrow> address \<Rightarrow> uint256 \<Rightarrow> string \<Rightarrow> state
     \<Rightarrow> error + state" where
  "mintAuthorized e hook caller recipient tid uri s =
     (if caller \<noteq> owner s then Inl (Revert ''unauthorized to mint'')
      else (case vacant s tid of
              Inl err \<Rightarrow> Inl err
            | Inr v \<Rightarrow>
                if \<not> v then Inl (Revert [])
                else internal_mint e hook recipient tid uri s))"

text \<open>\<open>mintable(weiPrice, id, uri, signature)\<close>, a view.\<close>

definition mintable ::
  "env \<Rightarrow> state \<Rightarrow> uint256 \<Rightarrow> uint256 \<Rightarrow> string \<Rightarrow> bytes \<Rightarrow> error + bool" where
  "mintable e s weiPrice tid uri signature =
     (case vacant s tid of
        Inl err \<Rightarrow> Inl err
      | Inr v \<Rightarrow>
          if \<not> v then Inl (Revert [])
          else (case recover e weiPrice tid uri signature of
                  Inl err \<Rightarrow> Inl err
                | Inr signer \<Rightarrow>
                    if owner s \<noteq> signer
                    then Inl (Revert ''signature invalid or signer unauthorized'')
                    else Inr True))"

text \<open>\<open>mint(id, uri, signature)\<close>, payable: the value sent with the call is in the balance
  while the body runs.\<close>

definition mint ::
  "env \<Rightarrow> (state \<Rightarrow> state) \<Rightarrow> address \<Rightarrow> uint256 \<Rightarrow> uint256 \<Rightarrow> string \<Rightarrow> bytes \<Rightarrow> state
     \<Rightarrow> error + state" where
  "mint e hook caller val tid uri signature s =
     (let s0 = s\<lparr>balance := balance s + val\<rparr>
      in (case mintable e s0 val tid uri signature of
            Inl err \<Rightarrow> Inl err
          | Inr m \<Rightarrow>
              if \<not> m then Inl (Revert [])
              else internal_mint e hook caller tid uri s0))"

text \<open>
  \<open>revokeId(id)\<close>. The source invokes the event as \<open>IdRevoked(id)\<close>, without the
  keyword \<open>emit\<close> that \<open>receive\<close> and \<open>withdraw\<close> write; it is modelled as the event
  invocation that it is.
\<close>

definition revokeId :: "address \<Rightarrow> uint256 \<Rightarrow> state \<Rightarrow> error + state" where
  "revokeId caller tid s =
     (if caller \<noteq> owner s then Inl (Revert ''unauthorized to revoke id'')
      else (case vacant s tid of
              Inl err \<Rightarrow> Inl err
            | Inr v \<Rightarrow>
                if \<not> v then Inl (Revert [])
                else
                  let s1 = s\<lparr>revokedIds := (revokedIds s)(tid := True)\<rparr>
                  in Inr (s1\<lparr>events := events s1 @ [IdRevoked tid]\<rparr>)))"

text \<open>
  \<open>setIdFloor(floor)\<close>. The event, invoked as \<open>IdFloorSet(idFloor)\<close> (again without
  \<open>emit\<close>), carries \<open>idFloor\<close> as read after the assignment.
\<close>

definition setIdFloor :: "address \<Rightarrow> uint256 \<Rightarrow> state \<Rightarrow> error + state" where
  "setIdFloor caller floor s =
     (if caller \<noteq> owner s then Inl (Revert ''unauthorized to set idFloor'')
      else if \<not> floor > idFloor s then Inl (Revert ''must exceed current floor'')
      else
        let s1 = s\<lparr>idFloor := floor\<rparr>
        in Inr (s1\<lparr>events := events s1 @ [IdFloorSet (idFloor s1)]\<rparr>))"

text \<open>\<open>tokenURI(id)\<close>, a view with no requirement.\<close>

definition tokenURI :: "state \<Rightarrow> uint256 \<Rightarrow> error + string" where
  "tokenURI s tid = Inr (tokenURIs s tid)"

text \<open>\<open>burn(id)\<close> of the inherited ERC721Burnable, which calls the overridden \<open>_burn\<close>.\<close>

definition burn :: "address \<Rightarrow> uint256 \<Rightarrow> state \<Rightarrow> error + state" where
  "burn caller tid s =
     (case erc721_isApprovedOrOwner s caller tid of
        Inl err \<Rightarrow> Inl err
      | Inr ok \<Rightarrow>
          if \<not> ok then Inl (Revert ''ERC721Burnable: caller is not owner nor approved'')
          else internal_burn tid s)"

subsection \<open>Transactions\<close>

text \<open>
  The external functions that write storage, as one datatype, and \<open>step\<close>, which
  dispatches a call to its function.
\<close>

datatype op =
    Receive uint256
  | Withdraw
  | MintAuthorized address uint256 string
  | Mint uint256 uint256 string bytes
  | RevokeId uint256
  | SetIdFloor uint256
  | Burn uint256
  | Approve address uint256
  | SetApprovalForAll address bool
  | TransferFrom address address uint256
  | SafeTransferFrom address address uint256

fun step :: "env \<Rightarrow> (state \<Rightarrow> state) \<Rightarrow> address \<Rightarrow> op \<Rightarrow> state \<Rightarrow> error + state" where
  "step e hook caller (Receive val) s = receive val s"
| "step e hook caller Withdraw s = withdraw e hook caller s"
| "step e hook caller (MintAuthorized recipient tid uri) s =
     mintAuthorized e hook caller recipient tid uri s"
| "step e hook caller (Mint val tid uri signature) s = mint e hook caller val tid uri signature s"
| "step e hook caller (RevokeId tid) s = revokeId caller tid s"
| "step e hook caller (SetIdFloor floor) s = setIdFloor caller floor s"
| "step e hook caller (Burn tid) s = burn caller tid s"
| "step e hook caller (Approve to tid) s = approve caller to tid s"
| "step e hook caller (SetApprovalForAll operator approved) s =
     setApprovalForAll caller operator approved s"
| "step e hook caller (TransferFrom from to tid) s = transferFrom caller from to tid s"
| "step e hook caller (SafeTransferFrom from to tid) s =
     safeTransferFrom e hook caller from to tid s"

text \<open>
  A call \<open>Tx e caller x calls\<close> is the call of \<open>x\<close> by \<open>caller\<close>, with the answers
  \<open>e\<close> of the outside world, during which the account that the contract calls (the
  recipient of the token, the receiver of the payment) makes the calls \<open>calls\<close> back to
  the contract, one after the other, each of them a call of the same kind. A call that
  fails is rolled back: \<open>exec\<close> returns the error, and the storage stays the one the call
  was made in; when this happens to a call made from inside another one, the account that
  made it goes on (an account that gives up instead is one whose answer in \<open>e\<close> is a
  failure). \<open>run\<close> executes a sequence of calls, and \<open>transact\<close> one call at the top
  level.
\<close>

datatype tx = Tx env address op "tx list"

fun exec :: "tx \<Rightarrow> state \<Rightarrow> error + state"
  and run :: "tx list \<Rightarrow> state \<Rightarrow> state" where
  "exec (Tx e caller x calls) s = step e (\<lambda>s1. run calls s1) caller x s"
| "run [] s = s"
| "run (t # ts) s = run ts (case exec t s of Inl err \<Rightarrow> s | Inr s1 \<Rightarrow> s1)"

definition transact :: "tx \<Rightarrow> state \<Rightarrow> state" where
  "transact t s = (case exec t s of Inl err \<Rightarrow> s | Inr s1 \<Rightarrow> s1)"

text \<open>
  The number of identifiers that exist less the counter \<open>totalSupply\<close>: what the
  counter has yet to catch up with. It is 0 between transactions and one more inside each
  \<open>_mint\<close> whose recipient is being called.
\<close>

definition uncounted :: "state \<Rightarrow> int" where
  "uncounted s = int (card {tid. exists_token s tid}) - int (unat (totalSupply s))"

subsection \<open>A sample deployment\<close>

text \<open>
  Concrete answers of the outside world, for evaluating the functions on examples: a
  signature is taken to be signed by account 1 when its first byte is 1 and by account 2
  otherwise, the empty signature is malformed, every recipient accepts tokens and every
  payment goes through. \<open>rejecting_env\<close> differs in that payments are refused; in
  \<open>refusing_env\<close> the recipient of a token returns a wrong value, and in
  \<open>reverting_env\<close> it reverts with a reason of its own.
\<close>

definition demo_env :: env where
  "demo_env =
     \<lparr>recover = (\<lambda>weiPrice tid uri signature.
                   case signature of
                     [] \<Rightarrow> Inl (Revert ''ECDSA: invalid signature length'')
                   | b # _ \<Rightarrow> if b = 1 then Inr 1 else Inr 2),
      checkOnERC721Received = (\<lambda>_ _ _. Inr True),
      call_value = (\<lambda>_ _. True)\<rparr>"

definition rejecting_env :: env where
  "rejecting_env = demo_env\<lparr>call_value := (\<lambda>_ _. False)\<rparr>"

definition refusing_env :: env where
  "refusing_env = demo_env\<lparr>checkOnERC721Received := (\<lambda>_ _ _. Inr False)\<rparr>"

definition reverting_env :: env where
  "reverting_env = demo_env\<lparr>checkOnERC721Received := (\<lambda>_ _ _. Inl (Revert ''no tokens, please''))\<rparr>"

section \<open>Properties\<close>

subsection \<open>What a successful call has done\<close>

text \<open>
  Each function that returns normally has passed all its requirements, and its result is
  the storage it was given with the writes of its body, around what the called account
  did in between (\<open>hook\<close>). These lemmas read that off the definitions once, for the
  proofs below.
\<close>

lemma unat_checked_add_one:
  "checked_add a 1 = Inr n \<Longrightarrow> n = a + 1 \<and> unat n = unat a + 1"
  by (auto simp: checked_add_def unat_word_ariths split: if_splits)

lemma unat_checked_sub_one:
  "checked_sub a 1 = Inr n \<Longrightarrow> n = a - 1 \<and> unat n + 1 = unat a"
  by (auto simp: checked_sub_def unat_sub word_le_nat_alt split: if_splits)

lemma vacant_Inr:
  "vacant s tid = Inr v \<Longrightarrow> v \<and> \<not> exists_token s tid \<and> idFloor s \<le> tid \<and> \<not> revokedIds s tid"
  by (auto simp: vacant_def split: if_splits)

lemma vacant_balance [simp]: "vacant (s\<lparr>balance := b\<rparr>) tid = vacant s tid"
  by (simp add: vacant_def exists_token_def)

lemma erc721_safeMint_Inr:
  "erc721_safeMint e hook r tid s = Inr s' \<Longrightarrow>
     r \<noteq> 0 \<and> \<not> exists_token s tid \<and> checkOnERC721Received e 0 r tid = Inr True
     \<and> s' = hook (s\<lparr>erc_owners := (erc_owners s)(tid := r)\<rparr>)"
  by (auto simp: erc721_safeMint_def erc721_mint_def split: sum.splits if_splits)

lemma internal_mint_Inr:
  assumes "internal_mint e hook r tid uri s = Inr s'"
  shows "\<exists>h. h = hook (s\<lparr>erc_owners := (erc_owners s)(tid := r)\<rparr>)
     \<and> r \<noteq> 0 \<and> \<not> exists_token s tid \<and> uri \<noteq> []
     \<and> checkOnERC721Received e 0 r tid = Inr True
     \<and> unat (totalSupply s') = unat (totalSupply h) + 1
     \<and> s' = h\<lparr>tokenURIs := (tokenURIs h)(tid := uri), totalSupply := totalSupply h + 1\<rparr>"
  using assms
  by (auto simp: internal_mint_def internal_setTokenURI_def
      dest!: erc721_safeMint_Inr unat_checked_add_one split: sum.splits if_splits)

lemma internal_burn_Inr:
  "internal_burn tid s = Inr s' \<Longrightarrow>
     exists_token s tid
     \<and> unat (totalSupply s') + 1 = unat (totalSupply s)
     \<and> s' = s\<lparr>erc_tokenApprovals := (erc_tokenApprovals s)(tid := 0),
              erc_owners := (erc_owners s)(tid := 0),
              tokenURIs := (tokenURIs s)(tid := []),
              revokedIds := (revokedIds s)(tid := True),
              totalSupply := totalSupply s - 1\<rparr>"
  by (auto simp: internal_burn_def erc721_burn_def erc721_ownerOf_def exists_token_def Let_def
      dest!: unat_checked_sub_one split: sum.splits if_splits)

lemma mintAuthorized_Inr:
  "mintAuthorized e hook caller r tid uri s = Inr s' \<Longrightarrow>
     caller = owner s \<and> vacant s tid = Inr True \<and> internal_mint e hook r tid uri s = Inr s'"
  by (auto simp: mintAuthorized_def split: sum.splits if_splits)

lemma mintable_Inr:
  "mintable e s p tid uri sg = Inr b \<Longrightarrow>
     b \<and> vacant s tid = Inr True \<and> recover e p tid uri sg = Inr (owner s)"
  by (auto simp: mintable_def split: sum.splits if_splits)

lemma mint_Inr:
  "mint e hook caller val tid uri sg s = Inr s' \<Longrightarrow>
     vacant s tid = Inr True \<and> recover e val tid uri sg = Inr (owner s)
     \<and> internal_mint e hook caller tid uri (s\<lparr>balance := balance s + val\<rparr>) = Inr s'"
  by (auto simp: mint_def Let_def dest!: mintable_Inr split: sum.splits if_splits)

lemma revokeId_Inr:
  "revokeId caller tid s = Inr s' \<Longrightarrow>
     caller = owner s \<and> vacant s tid = Inr True
     \<and> s' = s\<lparr>revokedIds := (revokedIds s)(tid := True), events := events s @ [IdRevoked tid]\<rparr>"
  by (auto simp: revokeId_def Let_def split: sum.splits if_splits)

lemma setIdFloor_Inr:
  "setIdFloor caller floor s = Inr s' \<Longrightarrow>
     caller = owner s \<and> idFloor s < floor
     \<and> s' = s\<lparr>idFloor := floor, events := events s @ [IdFloorSet floor]\<rparr>"
  by (auto simp: setIdFloor_def Let_def split: if_splits)

lemma burn_Inr: "burn caller tid s = Inr s' \<Longrightarrow> internal_burn tid s = Inr s'"
  by (auto simp: burn_def split: sum.splits if_splits)

lemma erc721_transfer_Inr:
  "erc721_transfer from to tid s = Inr s' \<Longrightarrow>
     exists_token s tid \<and> to \<noteq> 0
     \<and> s' = s\<lparr>erc_tokenApprovals := (erc_tokenApprovals s)(tid := 0),
              erc_owners := (erc_owners s)(tid := to)\<rparr>"
  by (auto simp: erc721_transfer_def erc721_ownerOf_def exists_token_def split: sum.splits if_splits)

lemma transferFrom_Inr:
  "transferFrom caller from to tid s = Inr s' \<Longrightarrow> erc721_transfer from to tid s = Inr s'"
  by (auto simp: transferFrom_def split: sum.splits if_splits)

lemma safeTransferFrom_Inr:
  "safeTransferFrom e hook caller from to tid s = Inr s' \<Longrightarrow>
     \<exists>s1. erc721_transfer from to tid s = Inr s1 \<and> s' = hook s1"
  by (auto simp: safeTransferFrom_def split: sum.splits if_splits)

lemma approve_Inr:
  "approve caller to tid s = Inr s' \<Longrightarrow> \<exists>a. s' = s\<lparr>erc_tokenApprovals := a\<rparr>"
  by (auto simp: approve_def split: sum.splits if_splits)

lemma setApprovalForAll_Inr:
  "setApprovalForAll caller operator approved s = Inr s' \<Longrightarrow> \<exists>a. s' = s\<lparr>erc_operatorApprovals := a\<rparr>"
  by (auto simp: setApprovalForAll_def split: if_splits)

lemma receive_Inr:
  "receive val s = Inr s' \<Longrightarrow> s' = s\<lparr>balance := balance s + val, events := events s @ [Receipt val]\<rparr>"
  by (auto simp: receive_def Let_def)

lemma withdraw_Inr:
  assumes "withdraw e hook caller s = Inr s'"
  shows "\<exists>h. h = hook (s\<lparr>balance := 0, sent := sent s @ [(caller, balance s)]\<rparr>)
     \<and> caller = owner s \<and> call_value e caller (balance s)
     \<and> s' = h\<lparr>events := events h @ [Withdrawal (balance s)]\<rparr>"
  using assms by (auto simp: withdraw_def Let_def split: if_splits)

lemmas step_Inr_dests =
  mintAuthorized_Inr mint_Inr revokeId_Inr setIdFloor_Inr burn_Inr transferFrom_Inr
  safeTransferFrom_Inr approve_Inr setApprovalForAll_Inr receive_Inr withdraw_Inr

subsection \<open>What every call preserves\<close>

text \<open>
  Each property is shown for one call under the assumption that the account called in
  between preserves it, and then for calls nested to any depth by induction on \<open>exec\<close>
  and \<open>run\<close>.
\<close>

lemma step_revoked:
  assumes hook: "\<And>st. revokedIds st t \<Longrightarrow> revokedIds (hook st) t"
    and st: "step e hook caller x s = Inr s'"
    and r: "revokedIds s t"
  shows "revokedIds s' t"
  using st r
  by (cases x)
     (auto dest!: step_Inr_dests internal_mint_Inr internal_burn_Inr erc721_transfer_Inr
       intro!: hook)

lemma step_idFloor:
  assumes hook: "\<And>st. idFloor st \<le> idFloor (hook st)"
    and st: "step e hook caller x s = Inr s'"
  shows "idFloor s \<le> idFloor s'"
proof -
  have h: "idFloor st = idFloor s \<Longrightarrow> idFloor s \<le> idFloor (hook st)" for st
    using hook [of st] by simp
  from st show ?thesis
    by (cases x)
       (auto dest!: step_Inr_dests internal_mint_Inr internal_burn_Inr erc721_transfer_Inr
         intro!: h)
qed


lemma step_taken_or_revoked:
  assumes hook: "\<And>st. exists_token st t \<or> revokedIds st t \<Longrightarrow>
                      exists_token (hook st) t \<or> revokedIds (hook st) t"
    and st: "step e hook caller x s = Inr s'"
    and r: "exists_token s t \<or> revokedIds s t"
  shows "exists_token s' t \<or> revokedIds s' t"
proof (cases x)
  case (MintAuthorized r' tid uri)
  with st have "internal_mint e hook r' tid uri s = Inr s'"
    by (auto dest: mintAuthorized_Inr)
  from internal_mint_Inr [OF this] obtain h
    where h: "h = hook (s\<lparr>erc_owners := (erc_owners s)(tid := r')\<rparr>)" "r' \<noteq> 0"
      "s' = h\<lparr>tokenURIs := (tokenURIs h)(tid := uri), totalSupply := totalSupply h + 1\<rparr>"
    by blast
  from r h(2) have "exists_token (s\<lparr>erc_owners := (erc_owners s)(tid := r')\<rparr>) t
      \<or> revokedIds (s\<lparr>erc_owners := (erc_owners s)(tid := r')\<rparr>) t"
    by (auto simp: exists_token_def)
  from hook [OF this] h(1,3) show ?thesis
    by (simp add: exists_token_def)
next
  case (Mint val tid uri sg)
  with st have "internal_mint e hook caller tid uri (s\<lparr>balance := balance s + val\<rparr>) = Inr s'"
    by (auto dest: mint_Inr)
  from internal_mint_Inr [OF this] obtain h
    where h: "h = hook (s\<lparr>balance := balance s + val, erc_owners := (erc_owners s)(tid := caller)\<rparr>)"
      "caller \<noteq> 0"
      "s' = h\<lparr>tokenURIs := (tokenURIs h)(tid := uri), totalSupply := totalSupply h + 1\<rparr>"
    by auto
  from r h(2) have "exists_token (s\<lparr>balance := balance s + val, erc_owners := (erc_owners s)(tid := caller)\<rparr>) t
      \<or> revokedIds (s\<lparr>balance := balance s + val, erc_owners := (erc_owners s)(tid := caller)\<rparr>) t"
    by (auto simp: exists_token_def)
  from hook [OF this] h(1,3) show ?thesis
    by (simp add: exists_token_def)
next
  case Withdraw
  with st obtain h
    where h: "h = hook (s\<lparr>balance := 0, sent := sent s @ [(caller, balance s)]\<rparr>)"
      "s' = h\<lparr>events := events h @ [Withdrawal (balance s)]\<rparr>"
    by (auto dest!: withdraw_Inr)
  from r have "exists_token (s\<lparr>balance := 0, sent := sent s @ [(caller, balance s)]\<rparr>) t
      \<or> revokedIds (s\<lparr>balance := 0, sent := sent s @ [(caller, balance s)]\<rparr>) t"
    by (auto simp: exists_token_def)
  from hook [OF this] h show ?thesis
    by (simp add: exists_token_def)
next
  case (SafeTransferFrom src dst tid)
  with st obtain s1 where s1: "erc721_transfer src dst tid s = Inr s1" "s' = hook s1"
    by (auto dest!: safeTransferFrom_Inr)
  from erc721_transfer_Inr [OF s1(1)] r have "exists_token s1 t \<or> revokedIds s1 t"
    by (auto simp: exists_token_def)
  from hook [OF this] s1(2) show ?thesis
    by simp
qed (use st r in \<open>auto simp: exists_token_def split: if_splits
       dest!: step_Inr_dests internal_burn_Inr erc721_transfer_Inr\<close>)

lemma step_sent:
  assumes hook: "\<And>st. \<exists>more. sent (hook st) = sent st @ more"
    and st: "step e hook caller x s = Inr s'"
  shows "\<exists>more. sent s' = sent s @ more"
proof (cases x)
  case (MintAuthorized r tid uri)
  with st have "internal_mint e hook r tid uri s = Inr s'"
    by (auto dest: mintAuthorized_Inr)
  from internal_mint_Inr [OF this] obtain h
    where h: "h = hook (s\<lparr>erc_owners := (erc_owners s)(tid := r)\<rparr>)"
      "s' = h\<lparr>tokenURIs := (tokenURIs h)(tid := uri), totalSupply := totalSupply h + 1\<rparr>"
    by blast
  from hook [of "s\<lparr>erc_owners := (erc_owners s)(tid := r)\<rparr>"] h show ?thesis
    by simp
next
  case (Mint val tid uri sg)
  with st have "internal_mint e hook caller tid uri (s\<lparr>balance := balance s + val\<rparr>) = Inr s'"
    by (auto dest: mint_Inr)
  from internal_mint_Inr [OF this] obtain h
    where h: "h = hook (s\<lparr>balance := balance s + val, erc_owners := (erc_owners s)(tid := caller)\<rparr>)"
      "s' = h\<lparr>tokenURIs := (tokenURIs h)(tid := uri), totalSupply := totalSupply h + 1\<rparr>"
    by auto
  from hook [of "s\<lparr>balance := balance s + val, erc_owners := (erc_owners s)(tid := caller)\<rparr>"] h
  show ?thesis
    by simp
next
  case Withdraw
  with st obtain h
    where h: "h = hook (s\<lparr>balance := 0, sent := sent s @ [(caller, balance s)]\<rparr>)"
      "s' = h\<lparr>events := events h @ [Withdrawal (balance s)]\<rparr>"
    by (auto dest!: withdraw_Inr)
  from hook [of "s\<lparr>balance := 0, sent := sent s @ [(caller, balance s)]\<rparr>"] h show ?thesis
    by auto
next
  case (SafeTransferFrom src dst tid)
  with st obtain s1 where s1: "erc721_transfer src dst tid s = Inr s1" "s' = hook s1"
    by (auto dest!: safeTransferFrom_Inr)
  from erc721_transfer_Inr [OF s1(1)] have "sent s1 = sent s"
    by simp
  with hook [of s1] s1(2) show ?thesis
    by simp
qed (use st in \<open>auto dest!: step_Inr_dests internal_burn_Inr erc721_transfer_Inr\<close>)

lemma uncounted_frame:
  "erc_owners s' = erc_owners s \<Longrightarrow> totalSupply s' = totalSupply s \<Longrightarrow> uncounted s' = uncounted s"
  by (simp add: uncounted_def exists_token_def)

lemma uncounted_taken:
  assumes "\<not> exists_token s tid" "r \<noteq> 0"
  shows "uncounted (s\<lparr>erc_owners := (erc_owners s)(tid := r)\<rparr>) = uncounted s + 1"
proof -
  from assms have "{t. exists_token (s\<lparr>erc_owners := (erc_owners s)(tid := r)\<rparr>) t}
      = insert tid {t. exists_token s t}"
    by (auto simp: exists_token_def)
  moreover have "finite {t. exists_token s t}" by simp
  ultimately show ?thesis
    using assms(1) by (simp add: uncounted_def)
qed

lemma uncounted_moved:
  assumes "exists_token s tid" "r \<noteq> 0"
  shows "uncounted (s\<lparr>erc_tokenApprovals := a, erc_owners := (erc_owners s)(tid := r)\<rparr>) = uncounted s"
proof -
  from assms have "{t. exists_token (s\<lparr>erc_tokenApprovals := a, erc_owners := (erc_owners s)(tid := r)\<rparr>) t}
      = {t. exists_token s t}"
    by (auto simp: exists_token_def)
  then show ?thesis
    by (simp add: uncounted_def)
qed

lemma uncounted_counted:
  assumes "unat (totalSupply s') = unat (totalSupply h) + 1" "erc_owners s' = erc_owners h"
  shows "uncounted s' = uncounted h - 1"
  using assms by (simp add: uncounted_def exists_token_def)

lemma uncounted_burnt:
  assumes "internal_burn tid s = Inr s'"
  shows "uncounted s' = uncounted s"
proof -
  note b = internal_burn_Inr [OF assms]
  from b have ex: "exists_token s tid"
    by blast
  from b have n: "unat (totalSupply s') + 1 = unat (totalSupply s)"
    by blast
  from b have "s' = s\<lparr>erc_tokenApprovals := (erc_tokenApprovals s)(tid := 0),
              erc_owners := (erc_owners s)(tid := 0),
              tokenURIs := (tokenURIs s)(tid := []),
              revokedIds := (revokedIds s)(tid := True),
              totalSupply := totalSupply s - 1\<rparr>"
    by blast
  then have o: "erc_owners s' = (erc_owners s)(tid := 0)"
    by simp
  from o have d: "{t. exists_token s' t} = {t. exists_token s t} - {tid}"
    by (auto simp: exists_token_def)
  have fin: "finite {t. exists_token s t}" by simp
  from ex have "tid \<in> {t. exists_token s t}" by simp
  with fin have c: "1 \<le> card {t. exists_token s t}"
    by (metis One_nat_def Suc_leI card_gt_0_iff empty_iff)
  from d fin ex have "card {t. exists_token s' t} = card {t. exists_token s t} - 1"
    by simp
  with c have "int (card {t. exists_token s' t}) = int (card {t. exists_token s t}) - 1"
    by linarith
  moreover from n have "int (unat (totalSupply s')) = int (unat (totalSupply s)) - 1"
    by linarith
  ultimately show ?thesis
    unfolding uncounted_def by linarith
qed

lemma step_uncounted:
  assumes hook: "\<And>st. uncounted (hook st) = uncounted st"
    and st: "step e hook caller x s = Inr s'"
  shows "uncounted s' = uncounted s"
proof (cases x)
  case (MintAuthorized r tid uri)
  with st have "internal_mint e hook r tid uri s = Inr s'"
    by (auto dest: mintAuthorized_Inr)
  from internal_mint_Inr [OF this] obtain h
    where h: "h = hook (s\<lparr>erc_owners := (erc_owners s)(tid := r)\<rparr>)" "r \<noteq> 0"
      "\<not> exists_token s tid" "unat (totalSupply s') = unat (totalSupply h) + 1"
      "s' = h\<lparr>tokenURIs := (tokenURIs h)(tid := uri), totalSupply := totalSupply h + 1\<rparr>"
    by blast
  from h(5) have "erc_owners s' = erc_owners h" by simp
  from uncounted_counted [OF h(4) this] h(1) hook uncounted_taken [OF h(3,2)]
  show ?thesis by simp
next
  case (Mint val tid uri sg)
  with st have "internal_mint e hook caller tid uri (s\<lparr>balance := balance s + val\<rparr>) = Inr s'"
    by (auto dest: mint_Inr)
  from internal_mint_Inr [OF this] obtain h
    where h: "h = hook (s\<lparr>balance := balance s + val, erc_owners := (erc_owners s)(tid := caller)\<rparr>)"
      "caller \<noteq> 0"
      "\<not> exists_token s tid" "unat (totalSupply s') = unat (totalSupply h) + 1"
      "s' = h\<lparr>tokenURIs := (tokenURIs h)(tid := uri), totalSupply := totalSupply h + 1\<rparr>"
    by (auto simp: exists_token_def)
  from h(5) have "erc_owners s' = erc_owners h" by simp
  from uncounted_counted [OF h(4) this]
  have "uncounted s' = uncounted h - 1" .
  also from h(1) hook
  have "uncounted h = uncounted (s\<lparr>balance := balance s + val, erc_owners := (erc_owners s)(tid := caller)\<rparr>)"
    by simp
  also have "\<dots> = uncounted (s\<lparr>erc_owners := (erc_owners s)(tid := caller)\<rparr>)"
    by (rule uncounted_frame) simp_all
  also from uncounted_taken [OF h(3,2)] have "\<dots> = uncounted s + 1" .
  finally show ?thesis by simp
next
  case (Burn tid)
  with st have "internal_burn tid s = Inr s'"
    by (auto dest: burn_Inr)
  then show ?thesis by (rule uncounted_burnt)
next
  case (TransferFrom src dst tid)
  with st have "erc721_transfer src dst tid s = Inr s'"
    by (auto dest: transferFrom_Inr)
  from erc721_transfer_Inr [OF this] uncounted_moved [of s tid dst] show ?thesis
    by auto
next
  case (SafeTransferFrom src dst tid)
  with st obtain s1 where s1: "erc721_transfer src dst tid s = Inr s1" "s' = hook s1"
    by (auto dest!: safeTransferFrom_Inr)
  from erc721_transfer_Inr [OF s1(1)] uncounted_moved [of s tid dst] have "uncounted s1 = uncounted s"
    by auto
  with s1(2) hook show ?thesis by simp
next
  case Withdraw
  with st obtain h
    where h: "h = hook (s\<lparr>balance := 0, sent := sent s @ [(caller, balance s)]\<rparr>)"
      "s' = h\<lparr>events := events h @ [Withdrawal (balance s)]\<rparr>"
    by (auto dest!: withdraw_Inr)
  have "uncounted s' = uncounted h"
    using h(2) by (intro uncounted_frame) simp_all
  also have "\<dots> = uncounted (s\<lparr>balance := 0, sent := sent s @ [(caller, balance s)]\<rparr>)"
    using h(1) hook by simp
  also have "\<dots> = uncounted s"
    by (rule uncounted_frame) simp_all
  finally show ?thesis .
qed (use st in \<open>auto dest!: step_Inr_dests intro!: uncounted_frame\<close>)


subsection \<open>From one call to nested calls and sequences\<close>

lemma transact_cases: "transact t s = s \<or> exec t s = Inr (transact t s)"
  by (simp add: transact_def split: sum.splits)

lemma run_Cons: "run (t # ts) s = run ts (transact t s)"
  by (simp add: transact_def)

lemma run_Nil_id [simp]: "run [] = (\<lambda>s. s)"
  by (rule ext) simp

lemma exec_run_revoked:
  shows "\<forall>s'. exec t s = Inr s' \<longrightarrow> revokedIds s tid \<longrightarrow> revokedIds s' tid"
    and "revokedIds s tid \<longrightarrow> revokedIds (run ts s) tid"
proof (induction t s and ts s rule: exec_run.induct)
  case (1 e caller x calls s)
  then show ?case
    by (auto intro: step_revoked [where hook = "\<lambda>s1. run calls s1"])
next
  case (2 s)
  show ?case by simp
next
  case (3 t ts s)
  then show ?case
    by (auto split: sum.splits)
qed

lemma exec_run_idFloor:
  shows "\<forall>s'. exec t s = Inr s' \<longrightarrow> idFloor s \<le> idFloor s'"
    and "idFloor s \<le> idFloor (run ts s)"
proof (induction t s and ts s rule: exec_run.induct)
  case (1 e caller x calls s)
  then show ?case
    by (auto intro: step_idFloor [where hook = "\<lambda>s1. run calls s1"])
next
  case (2 s)
  show ?case by simp
next
  case (3 t ts s)
  then show ?case
    by (auto split: sum.splits intro: order_trans)
qed

lemma exec_run_taken_or_revoked:
  shows "\<forall>s'. exec t s = Inr s' \<longrightarrow> exists_token s tid \<or> revokedIds s tid
           \<longrightarrow> exists_token s' tid \<or> revokedIds s' tid"
    and "exists_token s tid \<or> revokedIds s tid
           \<longrightarrow> exists_token (run ts s) tid \<or> revokedIds (run ts s) tid"
proof (induction t s and ts s rule: exec_run.induct)
  case (1 e caller x calls s)
  show ?case
  proof (intro allI impI)
    fix s'
    assume a: "exec (Tx e caller x calls) s = Inr s'" "exists_token s tid \<or> revokedIds s tid"
    from a(1) have "step e (\<lambda>s1. run calls s1) caller x s = Inr s'"
      by simp
    from step_taken_or_revoked [where hook = "\<lambda>s1. run calls s1", OF _ this a(2)] 1
    show "exists_token s' tid \<or> revokedIds s' tid"
      by blast
  qed
next
  case (2 s)
  show ?case by simp
next
  case (3 t ts s)
  then show ?case
    by (auto split: sum.splits)
qed

lemma exec_run_uncounted:
  shows "\<forall>s'. exec t s = Inr s' \<longrightarrow> uncounted s' = uncounted s"
    and "uncounted (run ts s) = uncounted s"
proof (induction t s and ts s rule: exec_run.induct)
  case (1 e caller x calls s)
  then show ?case
    by (auto intro: step_uncounted [where hook = "\<lambda>s1. run calls s1"])
next
  case (2 s)
  show ?case by simp
next
  case (3 t ts s)
  then show ?case
    by (auto split: sum.splits)
qed

lemma exec_run_sent:
  shows "\<forall>s'. exec t s = Inr s' \<longrightarrow> (\<exists>more. sent s' = sent s @ more)"
    and "\<exists>more. sent (run ts s) = sent s @ more"
proof (induction t s and ts s rule: exec_run.induct)
  case (1 e caller x calls s)
  then show ?case
    by (auto intro: step_sent [where hook = "\<lambda>s1. run calls s1"])
next
  case (2 s)
  show ?case by simp
next
  case (3 t ts s)
  then show ?case
    by (auto split: sum.splits)
qed

lemma run_sent: "\<exists>more. sent (run ts s) = sent s @ more"
  by (rule exec_run_sent(2))

lemma transact_revoked: "revokedIds s tid \<Longrightarrow> revokedIds (transact t s) tid"
  using transact_cases [of t s] exec_run_revoked(1) [of t s tid] by auto

lemma run_revoked: "revokedIds s tid \<Longrightarrow> revokedIds (run ts s) tid"
  using exec_run_revoked(2) [of s tid ts] by simp

lemma transact_idFloor: "idFloor s \<le> idFloor (transact t s)"
  using transact_cases [of t s] exec_run_idFloor(1) [of t s] by auto

lemma run_idFloor: "idFloor s \<le> idFloor (run ts s)"
  by (rule exec_run_idFloor(2))

lemma run_uncounted: "uncounted (run ts s) = uncounted s"
  by (rule exec_run_uncounted(2))

lemma run_taken_or_revoked:
  "exists_token s tid \<or> revokedIds s tid \<Longrightarrow>
   exists_token (run ts s) tid \<or> revokedIds (run ts s) tid"
  using exec_run_taken_or_revoked(2) [of s tid ts] by simp

lemma init_uncounted: "uncounted (init d f) = 0"
  by (simp add: uncounted_def init_def exists_token_def)

lemma supply_of_uncounted:
  "uncounted s = 0 \<Longrightarrow> unat (totalSupply s) = card {tid. exists_token s tid}"
  unfolding uncounted_def by linarith

subsection \<open>Evaluating examples\<close>

text \<open>The definitions that the simplifier unfolds to run the contract on a concrete input.\<close>

lemmas contract_defs =
  init_def demo_env_def rejecting_env_def refusing_env_def reverting_env_def transact_def Let_def
  receive_def withdraw_def vacant_def internal_setTokenURI_def internal_mint_def
  internal_burn_def mintAuthorized_def mintable_def mint_def revokeId_def setIdFloor_def
  tokenURI_def burn_def exists_token_def erc721_ownerOf_def erc721_isApprovedOrOwner_def
  erc721_mint_def erc721_safeMint_def erc721_burn_def erc721_transfer_def approve_def
  setApprovalForAll_def transferFrom_def safeTransferFrom_def checked_add_def checked_sub_def

subsection \<open>Availability\<close>

text \<open>
  C1. \<open>vacant\<close> returns \<open>true\<close> exactly when the identifier is not claimed, not revoked
  and not below the floor. It never returns \<open>false\<close>: otherwise it reverts, and the reason
  tells which requirement failed (the first one, in the order claimed, below floor,
  revoked); the three reasons are different strings.
\<close>

theorem vacant_true_iff_available:
  "(vacant s tid = Inr True) = (\<not> exists_token s tid \<and> \<not> revokedIds s tid \<and> idFloor s \<le> tid)
   \<and> vacant s tid \<noteq> Inr False
   \<and> (vacant s tid = Inl (Revert ''tokenId already minted'')) = exists_token s tid
   \<and> (vacant s tid = Inl (Revert ''tokenId below floor''))
       = (\<not> exists_token s tid \<and> tid < idFloor s)
   \<and> (vacant s tid = Inl (Revert ''tokenId revoked or burnt''))
       = (\<not> exists_token s tid \<and> idFloor s \<le> tid \<and> revokedIds s tid)"
  by (auto simp: vacant_def)

subsection \<open>Order of the checks in lazy minting\<close>

text \<open>
  C2. In \<open>mintable\<close> and in \<open>mint\<close> the availability check comes first: when \<open>vacant\<close>
  reverts, both revert with the same reason, whatever the signature is and whether or not
  it can be recovered. Either function returns normally only when \<open>vacant\<close> returned
  \<open>true\<close> and the recovered signer is the owner, so \<open>mint\<close> writes only then. An
  authorization signed by the owner, replayed in a state where its identifier is claimed,
  fails with the reason "tokenId already minted" and not with the signature reason. After
  a successful \<open>mint\<close> the token exists when the caller made no call back; whatever the
  caller did while it was called, and whatever happens later, \<open>vacant\<close> reverts for the
  identifier from then on, and a replay of the authorization fails with the reason that
  \<open>vacant\<close> gives.
\<close>

theorem availability_before_signature:
  "(vacant s tid = Inl err \<longrightarrow>
      mintable e s price tid uri sg = Inl err \<and> mint e hook caller price tid uri sg s = Inl err)
   \<and> (mintable e s price tid uri sg = Inr ok \<longrightarrow>
        vacant s tid = Inr True \<and> recover e price tid uri sg = Inr (owner s))
   \<and> (mint e hook caller price tid uri sg s = Inr s' \<longrightarrow>
        vacant s tid = Inr True \<and> recover e price tid uri sg = Inr (owner s))
   \<and> (recover e price tid uri sg = Inr (owner s) \<and> exists_token s tid \<longrightarrow>
        mint e hook caller price tid uri sg s = Inl (Revert ''tokenId already minted'')
        \<and> mintable e s price tid uri sg = Inl (Revert ''tokenId already minted''))
   \<and> (exec (Tx e caller (Mint price tid uri sg) []) s = Inr s' \<longrightarrow> exists_token s' tid)
   \<and> (exec (Tx e caller (Mint price tid uri sg) calls) s = Inr s' \<longrightarrow>
        (\<exists>reason. vacant (run later s') tid = Inl reason
           \<and> mintable e2 (run later s') price tid uri sg = Inl reason
           \<and> mint e2 hook2 caller2 price tid uri sg (run later s') = Inl reason))"
proof (intro conjI impI)
  assume "vacant s tid = Inl err"
  then show "mintable e s price tid uri sg = Inl err"
    by (simp add: mintable_def)
next
  assume "vacant s tid = Inl err"
  then show "mint e hook caller price tid uri sg s = Inl err"
    by (simp add: mint_def mintable_def Let_def)
next
  assume "mintable e s price tid uri sg = Inr ok"
  then show "vacant s tid = Inr True" "recover e price tid uri sg = Inr (owner s)"
    by (auto dest: mintable_Inr)
next
  assume m: "mint e hook caller price tid uri sg s = Inr s'"
  then show "vacant s tid = Inr True" "recover e price tid uri sg = Inr (owner s)"
    by (auto dest: mint_Inr)
next
  assume "recover e price tid uri sg = Inr (owner s) \<and> exists_token s tid"
  then have v: "vacant s tid = Inl (Revert ''tokenId already minted'')"
    by (simp add: vacant_def)
  then show "mint e hook caller price tid uri sg s = Inl (Revert ''tokenId already minted'')"
    by (simp add: mint_def mintable_def Let_def)
  from v show "mintable e s price tid uri sg = Inl (Revert ''tokenId already minted'')"
    by (simp add: mintable_def)
next
  assume "exec (Tx e caller (Mint price tid uri sg) []) s = Inr s'"
  then have "internal_mint e (\<lambda>s1. s1) caller tid uri (s\<lparr>balance := balance s + price\<rparr>) = Inr s'"
    by (auto dest: mint_Inr)
  from internal_mint_Inr [OF this] show "exists_token s' tid"
    by (auto simp: exists_token_def)
next
  assume "exec (Tx e caller (Mint price tid uri sg) calls) s = Inr s'"
  then have "internal_mint e (\<lambda>s1. run calls s1) caller tid uri (s\<lparr>balance := balance s + price\<rparr>)
               = Inr s'"
    by (auto dest: mint_Inr)
  from internal_mint_Inr [OF this] obtain h
    where h: "h = run calls (s\<lparr>balance := balance s + price,
                               erc_owners := (erc_owners s)(tid := caller)\<rparr>)"
      "caller \<noteq> 0"
      "s' = h\<lparr>tokenURIs := (tokenURIs h)(tid := uri), totalSupply := totalSupply h + 1\<rparr>"
    by auto
  from h(2) have "exists_token (s\<lparr>balance := balance s + price,
                               erc_owners := (erc_owners s)(tid := caller)\<rparr>) tid"
    by (simp add: exists_token_def)
  then have "exists_token h tid \<or> revokedIds h tid"
    unfolding h(1) by (intro run_taken_or_revoked) simp
  with h(3) have "exists_token s' tid \<or> revokedIds s' tid"
    by (simp add: exists_token_def)
  then have "exists_token (run later s') tid \<or> revokedIds (run later s') tid"
    by (rule run_taken_or_revoked)
  then have "\<exists>reason. vacant (run later s') tid = Inl reason"
    by (cases "exists_token (run later s') tid"; cases "idFloor (run later s') \<le> tid")
       (simp_all add: vacant_def)
  then obtain reason where v: "vacant (run later s') tid = Inl reason"
    by blast
  then have "mintable e2 (run later s') price tid uri sg = Inl reason"
    and "mint e2 hook2 caller2 price tid uri sg (run later s') = Inl reason"
    by (simp_all add: mint_def mintable_def Let_def)
  with v show "\<exists>reason. vacant (run later s') tid = Inl reason
           \<and> mintable e2 (run later s') price tid uri sg = Inl reason
           \<and> mint e2 hook2 caller2 price tid uri sg (run later s') = Inl reason"
    by blast
qed

theorem availability_before_signature_witness:
  "exec (Tx demo_env 2 (Mint 0 5 ''ipfs://x'' [1]) []) (init 1 0)
     = Inr (transact (Tx demo_env 2 (Mint 0 5 ''ipfs://x'' [1]) []) (init 1 0))
   \<and> exists_token (transact (Tx demo_env 2 (Mint 0 5 ''ipfs://x'' [1]) []) (init 1 0)) 5
   \<and> mint demo_env (\<lambda>s1. s1) 3 0 5 ''ipfs://x'' [1]
        (transact (Tx demo_env 2 (Mint 0 5 ''ipfs://x'' [1]) []) (init 1 0))
       = Inl (Revert ''tokenId already minted'')
   \<and> recover demo_env 0 5 ''ipfs://x'' [] = Inl (Revert ''ECDSA: invalid signature length'')
   \<and> mint demo_env (\<lambda>s1. s1) 3 0 5 ''ipfs://x'' []
        (transact (Tx demo_env 2 (Mint 0 5 ''ipfs://x'' [1]) []) (init 1 0))
       = Inl (Revert ''tokenId already minted'')
   \<and> mintable demo_env (transact (Tx demo_env 2 (Mint 0 5 ''ipfs://x'' [1]) []) (init 1 0))
        0 5 ''ipfs://x'' [2]
       = Inl (Revert ''tokenId already minted'')
   \<and> mintable demo_env (init 1 0) 0 5 ''ipfs://x'' [2]
       = Inl (Revert ''signature invalid or signer unauthorized'')
   \<and> (\<exists>reason.
        vacant (run [] (transact (Tx demo_env 7 (Mint 0 5 ''ipfs://x'' [1]) [Tx demo_env 7 (Burn 5) []])
                         (transact (Tx demo_env 1 (MintAuthorized 2 1 ''ipfs://a'') []) (init 1 0)))) 5
          = Inl reason
        \<and> mintable demo_env (run [] (transact (Tx demo_env 7 (Mint 0 5 ''ipfs://x'' [1]) [Tx demo_env 7 (Burn 5) []])
                         (transact (Tx demo_env 1 (MintAuthorized 2 1 ''ipfs://a'') []) (init 1 0))))
             0 5 ''ipfs://x'' [1] = Inl reason
        \<and> mint demo_env (\<lambda>s1. s1) 3 0 5 ''ipfs://x'' [1]
             (run [] (transact (Tx demo_env 7 (Mint 0 5 ''ipfs://x'' [1]) [Tx demo_env 7 (Burn 5) []])
                         (transact (Tx demo_env 1 (MintAuthorized 2 1 ''ipfs://a'') []) (init 1 0))))
             = Inl reason)"
proof -
  let ?t = "Tx demo_env 2 (Mint 0 5 ''ipfs://x'' [1]) []"
  let ?m = "transact ?t (init 1 0)"
  let ?a = "transact (Tx demo_env 1 (MintAuthorized 2 1 ''ipfs://a'') []) (init 1 0)"
  let ?tb = "Tx demo_env 7 (Mint 0 5 ''ipfs://x'' [1]) [Tx demo_env 7 (Burn 5) []]"
  have a: "exec ?t (init 1 0) = Inr ?m"
    by (simp add: contract_defs)
  have v: "vacant ?m 5 = Inl (Revert ''tokenId already minted'')"
    by (simp add: contract_defs)
  have r: "recover demo_env 0 5 ''ipfs://x'' [] = Inl (Revert ''ECDSA: invalid signature length'')"
    by (simp add: demo_env_def)
  have w: "mintable demo_env (init 1 0) 0 5 ''ipfs://x'' [2]
             = Inl (Revert ''signature invalid or signer unauthorized'')"
    by (simp add: contract_defs)
  have b: "exec ?tb ?a = Inr (transact ?tb ?a)"
    by (simp add: contract_defs)
  note t1 = availability_before_signature
              [where s = "init 1 0" and tid = 5 and e = demo_env and price = 0
                 and uri = "''ipfs://x''" and sg = "[1]" and caller = 2 and s' = ?m,
               THEN conjunct2, THEN conjunct2, THEN conjunct2, THEN conjunct2, THEN conjunct1,
               rule_format, OF a]
  have h: "recover demo_env 0 5 ''ipfs://x'' [1] = Inr (owner ?m) \<and> exists_token ?m 5"
    using t1 by (simp add: contract_defs)
  note t2 = availability_before_signature
              [where s = ?m and tid = 5 and e = demo_env and price = 0
                 and uri = "''ipfs://x''" and sg = "[1]" and caller = 3 and hook = "\<lambda>s1. s1",
               THEN conjunct2, THEN conjunct2, THEN conjunct2, THEN conjunct1, rule_format, OF h]
  note t3 = availability_before_signature
              [where s = ?m and tid = 5 and e = demo_env and price = 0
                 and uri = "''ipfs://x''" and sg = "[]" and caller = 3 and hook = "\<lambda>s1. s1"
                 and err = "Revert ''tokenId already minted''",
               THEN conjunct1, rule_format, OF v]
  note t4 = availability_before_signature
              [where s = ?m and tid = 5 and e = demo_env and price = 0
                 and uri = "''ipfs://x''" and sg = "[2]" and caller = 3 and hook = "\<lambda>s1. s1"
                 and err = "Revert ''tokenId already minted''",
               THEN conjunct1, rule_format, OF v]
  note t5 = availability_before_signature
              [where s = ?a and tid = 5 and e = demo_env and price = 0
                 and uri = "''ipfs://x''" and sg = "[1]" and caller = 7
                 and calls = "[Tx demo_env 7 (Burn 5) []]" and s' = "transact ?tb ?a"
                 and later = "[]" and ?e2.0 = demo_env and ?hook2.0 = "\<lambda>s1. s1" and ?caller2.0 = 3,
               THEN conjunct2, THEN conjunct2, THEN conjunct2, THEN conjunct2, THEN conjunct2,
               rule_format, OF b]
  show ?thesis
  proof (intro conjI)
    show "exec ?t (init 1 0) = Inr ?m"
      by (rule a)
    show "exists_token ?m 5"
      by (rule t1)
    show "mint demo_env (\<lambda>s1. s1) 3 0 5 ''ipfs://x'' [1] ?m = Inl (Revert ''tokenId already minted'')"
      by (rule t2 [THEN conjunct1])
    show "recover demo_env 0 5 ''ipfs://x'' [] = Inl (Revert ''ECDSA: invalid signature length'')"
      by (rule r)
    show "mint demo_env (\<lambda>s1. s1) 3 0 5 ''ipfs://x'' [] ?m = Inl (Revert ''tokenId already minted'')"
      by (rule t3 [THEN conjunct2])
    show "mintable demo_env ?m 0 5 ''ipfs://x'' [2] = Inl (Revert ''tokenId already minted'')"
      by (rule t4 [THEN conjunct1])
    show "mintable demo_env (init 1 0) 0 5 ''ipfs://x'' [2]
            = Inl (Revert ''signature invalid or signer unauthorized'')"
      by (rule w)
    show "\<exists>reason.
        vacant (run [] (transact ?tb ?a)) 5 = Inl reason
        \<and> mintable demo_env (run [] (transact ?tb ?a)) 0 5 ''ipfs://x'' [1] = Inl reason
        \<and> mint demo_env (\<lambda>s1. s1) 3 0 5 ''ipfs://x'' [1] (run [] (transact ?tb ?a)) = Inl reason"
      by (rule t5)
  qed
qed

subsection \<open>The supply counter\<close>

text \<open>
  C3. After any sequence of transactions from deployment, with calls back nested to any
  depth inside them, \<open>totalSupply\<close> read as a natural number is the number of
  identifiers that exist (are claimed); being unsigned it is never negative. Every
  successful call changes the counter and the number of existing identifiers by the same
  amount. \<open>_mint\<close> raises the counter by exactly one over what the recipient left when
  it was called, so by exactly one over the state before when the recipient made no call
  back; a successful \<open>burn\<close> lowers it by exactly one; neither wraps around. \<open>revokeId\<close>
  and \<open>setIdFloor\<close> leave it alone.
\<close>

theorem totalSupply_counts_claimed:
  "unat (totalSupply (run trace (init deployer funds)))
     = card {tid. exists_token (run trace (init deployer funds)) tid}
   \<and> (exec t s = Inr s' \<longrightarrow>
        int (card {tid. exists_token s' tid}) - int (card {tid. exists_token s tid})
          = int (unat (totalSupply s')) - int (unat (totalSupply s)))
   \<and> (exec (Tx e caller (MintAuthorized recipient tid uri) calls) s = Inr s' \<longrightarrow>
        unat (totalSupply s')
          = unat (totalSupply (run calls (s\<lparr>erc_owners := (erc_owners s)(tid := recipient)\<rparr>))) + 1)
   \<and> (exec (Tx e caller (Mint val tid uri sg) calls) s = Inr s' \<longrightarrow>
        unat (totalSupply s')
          = unat (totalSupply (run calls (s\<lparr>balance := balance s + val,
                                             erc_owners := (erc_owners s)(tid := caller)\<rparr>))) + 1)
   \<and> (exec (Tx e caller (MintAuthorized recipient tid uri) []) s = Inr s' \<longrightarrow>
        unat (totalSupply s') = unat (totalSupply s) + 1)
   \<and> (exec (Tx e caller (Mint val tid uri sg) []) s = Inr s' \<longrightarrow>
        unat (totalSupply s') = unat (totalSupply s) + 1)
   \<and> (exec (Tx e caller (Burn tid) calls) s = Inr s' \<longrightarrow>
        unat (totalSupply s') + 1 = unat (totalSupply s))
   \<and> (revokeId caller tid s = Inr s' \<longrightarrow> totalSupply s' = totalSupply s)
   \<and> (setIdFloor caller floor s = Inr s' \<longrightarrow> totalSupply s' = totalSupply s)"
proof (intro conjI impI)
  have "uncounted (run trace (init deployer funds)) = 0"
    by (simp add: run_uncounted init_uncounted)
  then show "unat (totalSupply (run trace (init deployer funds)))
     = card {tid. exists_token (run trace (init deployer funds)) tid}"
    by (rule supply_of_uncounted)
next
  assume "exec t s = Inr s'"
  with exec_run_uncounted(1) [of t s] have "uncounted s' = uncounted s"
    by blast
  then show "int (card {tid. exists_token s' tid}) - int (card {tid. exists_token s tid})
          = int (unat (totalSupply s')) - int (unat (totalSupply s))"
    unfolding uncounted_def by linarith
next
  assume "exec (Tx e caller (MintAuthorized recipient tid uri) calls) s = Inr s'"
  then have "internal_mint e (\<lambda>s1. run calls s1) recipient tid uri s = Inr s'"
    by (auto dest: mintAuthorized_Inr)
  from internal_mint_Inr [OF this]
  show "unat (totalSupply s')
          = unat (totalSupply (run calls (s\<lparr>erc_owners := (erc_owners s)(tid := recipient)\<rparr>))) + 1"
    by blast
next
  assume "exec (Tx e caller (Mint val tid uri sg) calls) s = Inr s'"
  then have "internal_mint e (\<lambda>s1. run calls s1) caller tid uri (s\<lparr>balance := balance s + val\<rparr>)
               = Inr s'"
    by (auto dest: mint_Inr)
  from internal_mint_Inr [OF this]
  have "unat (totalSupply s')
          = unat (totalSupply (run calls ((s\<lparr>balance := balance s + val\<rparr>)\<lparr>erc_owners :=
              (erc_owners (s\<lparr>balance := balance s + val\<rparr>))(tid := caller)\<rparr>))) + 1"
    by blast
  then show "unat (totalSupply s')
          = unat (totalSupply (run calls (s\<lparr>balance := balance s + val,
                                             erc_owners := (erc_owners s)(tid := caller)\<rparr>))) + 1"
    by simp
next
  assume "exec (Tx e caller (MintAuthorized recipient tid uri) []) s = Inr s'"
  then have "internal_mint e (\<lambda>s1. s1) recipient tid uri s = Inr s'"
    by (auto dest: mintAuthorized_Inr)
  from internal_mint_Inr [OF this]
  have "unat (totalSupply s')
          = unat (totalSupply (s\<lparr>erc_owners := (erc_owners s)(tid := recipient)\<rparr>)) + 1"
    by blast
  then show "unat (totalSupply s') = unat (totalSupply s) + 1"
    by simp
next
  assume "exec (Tx e caller (Mint val tid uri sg) []) s = Inr s'"
  then have "internal_mint e (\<lambda>s1. s1) caller tid uri (s\<lparr>balance := balance s + val\<rparr>) = Inr s'"
    by (auto dest: mint_Inr)
  from internal_mint_Inr [OF this]
  have "unat (totalSupply s')
          = unat (totalSupply ((s\<lparr>balance := balance s + val\<rparr>)\<lparr>erc_owners :=
              (erc_owners (s\<lparr>balance := balance s + val\<rparr>))(tid := caller)\<rparr>)) + 1"
    by blast
  then show "unat (totalSupply s') = unat (totalSupply s) + 1"
    by simp
next
  assume "exec (Tx e caller (Burn tid) calls) s = Inr s'"
  then have "internal_burn tid s = Inr s'"
    by (auto dest: burn_Inr)
  from internal_burn_Inr [OF this] show "unat (totalSupply s') + 1 = unat (totalSupply s)"
    by blast
next
  assume "revokeId caller tid s = Inr s'"
  from revokeId_Inr [OF this] show "totalSupply s' = totalSupply s"
    by simp
next
  assume "setIdFloor caller floor s = Inr s'"
  from setIdFloor_Inr [OF this] show "totalSupply s' = totalSupply s"
    by simp
qed

theorem totalSupply_counts_claimed_witness:
  "totalSupply (transact (Tx demo_env 1 (MintAuthorized 2 1 ''ipfs://a'') []) (init 1 0)) = 1
   \<and> unat (totalSupply (transact (Tx demo_env 1 (MintAuthorized 2 1 ''ipfs://a'') []) (init 1 0)))
       = unat (totalSupply (init 1 0)) + 1
   \<and> unat (totalSupply (transact (Tx demo_env 3 (Mint 0 7 ''ipfs://y'' [1]) []) (init 1 0)))
       = unat (totalSupply (init 1 0)) + 1
   \<and> totalSupply (transact (Tx demo_env 1 (MintAuthorized 7 5 ''ipfs://x'') [Tx demo_env 7 (Burn 5) []])
        (transact (Tx demo_env 1 (MintAuthorized 2 1 ''ipfs://a'') []) (init 1 0))) = 1
   \<and> unat (totalSupply (transact (Tx demo_env 2 (Burn 1) [])
              (transact (Tx demo_env 1 (MintAuthorized 2 1 ''ipfs://a'') []) (init 1 0)))) + 1
       = unat (totalSupply (transact (Tx demo_env 1 (MintAuthorized 2 1 ''ipfs://a'') []) (init 1 0)))
   \<and> totalSupply (transact (Tx demo_env 1 (RevokeId 9) []) (init 1 0)) = totalSupply (init 1 0)
   \<and> totalSupply (transact (Tx demo_env 1 (SetIdFloor 10) []) (init 1 0)) = totalSupply (init 1 0)
   \<and> unat (totalSupply (run [Tx demo_env 1 (MintAuthorized 2 1 ''ipfs://a'') [],
                               Tx demo_env 1 (MintAuthorized 7 5 ''ipfs://x'') [Tx demo_env 7 (Burn 5) []]]
                          (init 1 0)))
       = card {tid. exists_token (run [Tx demo_env 1 (MintAuthorized 2 1 ''ipfs://a'') [],
                               Tx demo_env 1 (MintAuthorized 7 5 ''ipfs://x'') [Tx demo_env 7 (Burn 5) []]]
                          (init 1 0)) tid}"
proof -
  let ?ta = "Tx demo_env 1 (MintAuthorized 2 1 ''ipfs://a'') []"
  let ?a = "transact ?ta (init 1 0)"
  let ?tl = "Tx demo_env 3 (Mint 0 7 ''ipfs://y'' [1]) []"
  let ?tb = "Tx demo_env 1 (MintAuthorized 7 5 ''ipfs://x'') [Tx demo_env 7 (Burn 5) []]"
  let ?tc = "Tx demo_env 2 (Burn 1) []"
  have a: "exec ?ta (init 1 0) = Inr ?a"
    by (simp add: contract_defs)
  have a1: "totalSupply ?a = 1"
    by (simp add: contract_defs)
  have l: "exec ?tl (init 1 0) = Inr (transact ?tl (init 1 0))"
    by (simp add: contract_defs)
  have b: "exec ?tb ?a = Inr (transact ?tb ?a)"
    by (simp add: contract_defs)
  have b1: "totalSupply (run [Tx demo_env 7 (Burn 5) []] (?a\<lparr>erc_owners := (erc_owners ?a)(5 := 7)\<rparr>)) = 0"
    by (simp add: contract_defs)
  have c: "exec ?tc ?a = Inr (transact ?tc ?a)"
    by (simp add: contract_defs)
  have d: "revokeId 1 9 (init 1 0) = Inr (transact (Tx demo_env 1 (RevokeId 9) []) (init 1 0))"
    by (simp add: contract_defs)
  have f: "setIdFloor 1 10 (init 1 0) = Inr (transact (Tx demo_env 1 (SetIdFloor 10) []) (init 1 0))"
    by (simp add: contract_defs)
  note t1 = totalSupply_counts_claimed
      [where trace = "[?ta, ?tb]" and deployer = 1 and funds = 0
         and e = demo_env and caller = 1 and recipient = 2 and tid = 1 and uri = "''ipfs://a''"
         and s = "init 1 0" and s' = ?a]
  note t2 = totalSupply_counts_claimed
      [where e = demo_env and caller = 3 and val = 0 and tid = 7 and uri = "''ipfs://y''"
         and sg = "[1]" and s = "init 1 0" and s' = "transact ?tl (init 1 0)"]
  note t3 = totalSupply_counts_claimed
      [where e = demo_env and caller = 1 and recipient = 7 and tid = 5 and uri = "''ipfs://x''"
         and calls = "[Tx demo_env 7 (Burn 5) []]" and s = ?a and s' = "transact ?tb ?a"]
  note t4 = totalSupply_counts_claimed
      [where e = demo_env and caller = 2 and tid = 1 and calls = "[]" and s = ?a
         and s' = "transact ?tc ?a"]
  note t5 = totalSupply_counts_claimed
      [where caller = 1 and tid = 9 and s = "init 1 0"
         and s' = "transact (Tx demo_env 1 (RevokeId 9) []) (init 1 0)"]
  note t6 = totalSupply_counts_claimed
      [where caller = 1 and floor = 10 and s = "init 1 0"
         and s' = "transact (Tx demo_env 1 (SetIdFloor 10) []) (init 1 0)"]
  have b2: "unat (totalSupply (transact ?tb ?a)) = 1"
    using t3 [THEN conjunct2, THEN conjunct2, THEN conjunct1, rule_format, OF b] b1 by simp
  show ?thesis
  proof (intro conjI)
    show "totalSupply ?a = 1"
      by (rule a1)
    show "unat (totalSupply ?a) = unat (totalSupply (init 1 0)) + 1"
      by (rule t1 [THEN conjunct2, THEN conjunct2, THEN conjunct2, THEN conjunct2,
                   THEN conjunct1, rule_format, OF a])
    show "unat (totalSupply (transact ?tl (init 1 0))) = unat (totalSupply (init 1 0)) + 1"
      by (rule t2 [THEN conjunct2, THEN conjunct2, THEN conjunct2, THEN conjunct2,
                   THEN conjunct2, THEN conjunct1, rule_format, OF l])
    show "totalSupply (transact ?tb ?a) = 1"
      using b2 by (metis unat_1 word_unat_eq_iff)
    show "unat (totalSupply (transact ?tc ?a)) + 1 = unat (totalSupply ?a)"
      by (rule t4 [THEN conjunct2, THEN conjunct2, THEN conjunct2, THEN conjunct2,
                   THEN conjunct2, THEN conjunct2, THEN conjunct1, rule_format, OF c])
    show "totalSupply (transact (Tx demo_env 1 (RevokeId 9) []) (init 1 0)) = totalSupply (init 1 0)"
      by (rule t5 [THEN conjunct2, THEN conjunct2, THEN conjunct2, THEN conjunct2,
                   THEN conjunct2, THEN conjunct2, THEN conjunct2, THEN conjunct1,
                   rule_format, OF d])
    show "totalSupply (transact (Tx demo_env 1 (SetIdFloor 10) []) (init 1 0)) = totalSupply (init 1 0)"
      by (rule t6 [THEN conjunct2, THEN conjunct2, THEN conjunct2, THEN conjunct2,
                   THEN conjunct2, THEN conjunct2, THEN conjunct2, THEN conjunct2,
                   rule_format, OF f])
    show "unat (totalSupply (run [?ta, ?tb] (init 1 0)))
            = card {tid. exists_token (run [?ta, ?tb] (init 1 0)) tid}"
      by (rule t1 [THEN conjunct1])
  qed
qed

subsection \<open>Revocation is permanent\<close>

text \<open>
  C4. \<open>revokeId\<close> and \<open>burn\<close> set the revoked flag of their identifier, and no
  transaction clears a revoked flag: it is still set after any one transaction and after
  any sequence of them, whatever calls back are nested in them, and \<open>vacant\<close> never
  again returns \<open>true\<close> for that identifier.
\<close>

theorem revoked_is_permanent:
  "(revokedIds s tid \<longrightarrow>
      revokedIds (transact t s) tid
      \<and> revokedIds (run trace s) tid
      \<and> vacant (run trace s) tid \<noteq> Inr True)
   \<and> (revokeId caller tid s = Inr s' \<longrightarrow> revokedIds s' tid)
   \<and> (burn caller tid s = Inr s' \<longrightarrow> revokedIds s' tid)"
proof (intro conjI impI)
  assume r: "revokedIds s tid"
  then show "revokedIds (transact t s) tid"
    by (rule transact_revoked)
  from r have "revokedIds (run trace s) tid"
    by (rule run_revoked)
  then show "revokedIds (run trace s) tid" "vacant (run trace s) tid \<noteq> Inr True"
    by (auto simp: vacant_def)
next
  assume "revokeId caller tid s = Inr s'"
  from revokeId_Inr [OF this] show "revokedIds s' tid"
    by simp
next
  assume "burn caller tid s = Inr s'"
  then have "internal_burn tid s = Inr s'"
    by (rule burn_Inr)
  from internal_burn_Inr [OF this] show "revokedIds s' tid"
    by simp
qed


theorem revoked_is_permanent_witness:
  "revokedIds (transact (Tx demo_env 1 (RevokeId 9) []) (init 1 0)) 9
   \<and> revokedIds (transact (Tx demo_env 1 (MintAuthorized 2 9 ''ipfs://x'') [])
                   (transact (Tx demo_env 1 (RevokeId 9) []) (init 1 0))) 9
   \<and> revokedIds (run [Tx demo_env 1 (SetIdFloor 3) [], Tx demo_env 1 (MintAuthorized 2 9 ''ipfs://x'') []]
                   (transact (Tx demo_env 1 (RevokeId 9) []) (init 1 0))) 9
   \<and> vacant (run [Tx demo_env 1 (SetIdFloor 3) [], Tx demo_env 1 (MintAuthorized 2 9 ''ipfs://x'') []]
                   (transact (Tx demo_env 1 (RevokeId 9) []) (init 1 0))) 9 \<noteq> Inr True
   \<and> revokedIds (transact (Tx demo_env 2 (Burn 5) [])
                   (transact (Tx demo_env 1 (MintAuthorized 2 5 ''ipfs://x'') []) (init 1 0))) 5"
proof -
  let ?r = "transact (Tx demo_env 1 (RevokeId 9) []) (init 1 0)"
  let ?m = "transact (Tx demo_env 1 (MintAuthorized 2 5 ''ipfs://x'') []) (init 1 0)"
  let ?t = "[Tx demo_env 1 (SetIdFloor 3) [], Tx demo_env 1 (MintAuthorized 2 9 ''ipfs://x'') []]"
  have d: "revokeId 1 9 (init 1 0) = Inr ?r"
    by (simp add: contract_defs)
  have c: "burn 2 5 ?m = Inr (transact (Tx demo_env 2 (Burn 5) []) ?m)"
    by (simp add: contract_defs)
  note t1 = revoked_is_permanent [where s = "init 1 0" and tid = 9 and caller = 1 and s' = ?r]
  have r: "revokedIds ?r 9"
    by (rule t1 [THEN conjunct2, THEN conjunct1, rule_format, OF d])
  note t2 = revoked_is_permanent
              [where s = ?r and tid = 9 and t = "Tx demo_env 1 (MintAuthorized 2 9 ''ipfs://x'') []"
                 and trace = ?t, THEN conjunct1, rule_format, OF r]
  note t3 = revoked_is_permanent [where s = ?m and tid = 5 and caller = 2
                 and s' = "transact (Tx demo_env 2 (Burn 5) []) ?m"]
  have b: "revokedIds (transact (Tx demo_env 2 (Burn 5) []) ?m) 5"
    by (rule t3 [THEN conjunct2, THEN conjunct2, rule_format, OF c])
  from r t2 b show ?thesis
    by (intro conjI) (erule conjunct1 conjunct2 | assumption | erule conjE)+
qed

subsection \<open>Raising the floor\<close>

text \<open>
  C5. \<open>setIdFloor\<close> succeeds exactly when the caller is the owner and the new floor is
  strictly above the stored one, and the stored floor is then the new value. A caller who
  is not the owner gets "unauthorized to set idFloor"; the owner with a value that is not
  strictly greater gets "must exceed current floor" (the caller is checked first). A
  failed call leaves the storage, and so the floor, as it was. The floor never decreases
  over a transaction or a sequence of them, and of two successful raises the later one
  carries the strictly greater value.
\<close>

theorem setIdFloor_raises_floor:
  "((\<exists>s1. setIdFloor caller floor s = Inr s1) = (caller = owner s \<and> idFloor s < floor))
   \<and> (setIdFloor caller floor s = Inr s' \<longrightarrow> idFloor s' = floor)
   \<and> (caller \<noteq> owner s \<longrightarrow>
        setIdFloor caller floor s = Inl (Revert ''unauthorized to set idFloor''))
   \<and> (caller = owner s \<and> \<not> idFloor s < floor \<longrightarrow>
        setIdFloor caller floor s = Inl (Revert ''must exceed current floor''))
   \<and> (setIdFloor caller floor s = Inl err \<longrightarrow> transact (Tx e caller (SetIdFloor floor) calls) s = s)
   \<and> idFloor s \<le> idFloor (transact t s)
   \<and> idFloor s \<le> idFloor (run trace s)
   \<and> (setIdFloor caller floor s = Inr s' \<and> setIdFloor caller2 floor2 (run trace s') = Inr s''
        \<longrightarrow> floor < floor2)"
proof (intro conjI impI)
  show "(\<exists>s1. setIdFloor caller floor s = Inr s1) = (caller = owner s \<and> idFloor s < floor)"
    by (auto simp: setIdFloor_def Let_def)
next
  assume "setIdFloor caller floor s = Inr s'"
  from setIdFloor_Inr [OF this] show "idFloor s' = floor"
    by simp
next
  assume "caller \<noteq> owner s"
  then show "setIdFloor caller floor s = Inl (Revert ''unauthorized to set idFloor'')"
    by (simp add: setIdFloor_def)
next
  assume "caller = owner s \<and> \<not> idFloor s < floor"
  then show "setIdFloor caller floor s = Inl (Revert ''must exceed current floor'')"
    by (simp add: setIdFloor_def)
next
  assume "setIdFloor caller floor s = Inl err"
  then show "transact (Tx e caller (SetIdFloor floor) calls) s = s"
    by (simp add: transact_def)
next
  show "idFloor s \<le> idFloor (transact t s)"
    by (rule transact_idFloor)
next
  show "idFloor s \<le> idFloor (run trace s)"
    by (rule run_idFloor)
next
  assume a: "setIdFloor caller floor s = Inr s' \<and> setIdFloor caller2 floor2 (run trace s') = Inr s''"
  then have "idFloor s' = floor"
    by (auto dest: setIdFloor_Inr)
  moreover have "idFloor s' \<le> idFloor (run trace s')"
    by (rule run_idFloor)
  moreover from a have "idFloor (run trace s') < floor2"
    by (auto dest: setIdFloor_Inr)
  ultimately show "floor < floor2"
    by simp
qed

theorem setIdFloor_raises_floor_witness:
  "idFloor (transact (Tx demo_env 1 (SetIdFloor 10) []) (init 1 0)) = 10
   \<and> setIdFloor 2 20 (init 1 0) = Inl (Revert ''unauthorized to set idFloor'')
   \<and> setIdFloor 1 10 (transact (Tx demo_env 1 (SetIdFloor 10) []) (init 1 0))
       = Inl (Revert ''must exceed current floor'')
   \<and> transact (Tx demo_env 2 (SetIdFloor 20) []) (init 1 0) = init 1 0
   \<and> (10::uint256) < 11"
proof -
  let ?f = "transact (Tx demo_env 1 (SetIdFloor 10) []) (init 1 0)"
  let ?g = "transact (Tx demo_env 1 (SetIdFloor 11) []) (run [Tx demo_env 2 (Receive 4) []] ?f)"
  have a: "setIdFloor 1 10 (init 1 0) = Inr ?f"
    by (simp add: contract_defs)
  have b: "setIdFloor 1 11 (run [Tx demo_env 2 (Receive 4) []] ?f) = Inr ?g"
    by (simp add: contract_defs)
  have c: "(2::address) \<noteq> owner (init 1 0)"
    by (simp add: init_def)
  have d: "1 = owner ?f \<and> \<not> idFloor ?f < 10"
    by (simp add: contract_defs)
  note t1 = setIdFloor_raises_floor
              [where caller = 1 and floor = 10 and s = "init 1 0" and s' = ?f
                 and trace = "[Tx demo_env 2 (Receive 4) []]" and ?caller2.0 = 1 and ?floor2.0 = 11
                 and s'' = ?g]
  note t2 = setIdFloor_raises_floor
              [where caller = 2 and floor = 20 and s = "init 1 0"
                 and err = "Revert ''unauthorized to set idFloor''" and e = demo_env and calls = "[]"]
  note t3 = setIdFloor_raises_floor [where caller = 1 and floor = 10 and s = ?f]
  have u: "setIdFloor 2 20 (init 1 0) = Inl (Revert ''unauthorized to set idFloor'')"
    by (rule t2 [THEN conjunct2, THEN conjunct2, THEN conjunct1, rule_format, OF c])
  show ?thesis
  proof (intro conjI)
    show "idFloor ?f = 10"
      by (rule t1 [THEN conjunct2, THEN conjunct1, rule_format, OF a])
    show "setIdFloor 2 20 (init 1 0) = Inl (Revert ''unauthorized to set idFloor'')"
      by (rule u)
    show "setIdFloor 1 10 ?f = Inl (Revert ''must exceed current floor'')"
      by (rule t3 [THEN conjunct2, THEN conjunct2, THEN conjunct2, THEN conjunct1,
                   rule_format, OF d])
    show "transact (Tx demo_env 2 (SetIdFloor 20) []) (init 1 0) = init 1 0"
      by (rule t2 [THEN conjunct2, THEN conjunct2, THEN conjunct2, THEN conjunct2,
                   THEN conjunct1, rule_format, OF u])
    show "(10::uint256) < 11"
      by (rule t1 [THEN conjunct2, THEN conjunct2, THEN conjunct2, THEN conjunct2,
                   THEN conjunct2, THEN conjunct2, THEN conjunct2, rule_format,
                   OF conjI, OF a b])
  qed
qed

subsection \<open>Events of revocation and of a floor raise\<close>

text \<open>
  C6. A successful \<open>revokeId\<close> appends the event \<open>IdRevoked\<close> with the identifier to
  the log, and a successful \<open>setIdFloor\<close> appends \<open>IdFloorSet\<close> with the new floor.
  The event and the write come together: the storage after the transaction holds both,
  and a call that fails leaves the log and the storage as they were.
\<close>

theorem revoke_and_floor_events:
  "(revokeId caller tid s = Inr s' \<longrightarrow>
      events s' = events s @ [IdRevoked tid] \<and> revokedIds s' tid
      \<and> transact (Tx e caller (RevokeId tid) calls) s = s')
   \<and> (setIdFloor caller floor s = Inr s' \<longrightarrow>
      events s' = events s @ [IdFloorSet floor] \<and> idFloor s' = floor
      \<and> transact (Tx e caller (SetIdFloor floor) calls) s = s')
   \<and> (revokeId caller tid s = Inl err \<longrightarrow> transact (Tx e caller (RevokeId tid) calls) s = s)
   \<and> (setIdFloor caller floor s = Inl err \<longrightarrow> transact (Tx e caller (SetIdFloor floor) calls) s = s)"
proof (intro conjI impI)
  assume a: "revokeId caller tid s = Inr s'"
  from revokeId_Inr [OF a] show "events s' = events s @ [IdRevoked tid]" "revokedIds s' tid"
    by simp_all
  from a show "transact (Tx e caller (RevokeId tid) calls) s = s'"
    by (simp add: transact_def)
next
  assume a: "setIdFloor caller floor s = Inr s'"
  from setIdFloor_Inr [OF a] show "events s' = events s @ [IdFloorSet floor]" "idFloor s' = floor"
    by simp_all
  from a show "transact (Tx e caller (SetIdFloor floor) calls) s = s'"
    by (simp add: transact_def)
next
  assume "revokeId caller tid s = Inl err"
  then show "transact (Tx e caller (RevokeId tid) calls) s = s"
    by (simp add: transact_def)
next
  assume "setIdFloor caller floor s = Inl err"
  then show "transact (Tx e caller (SetIdFloor floor) calls) s = s"
    by (simp add: transact_def)
qed

theorem revoke_and_floor_events_witness:
  "events (transact (Tx demo_env 1 (RevokeId 9) []) (init 1 0)) = events (init 1 0) @ [IdRevoked 9]
   \<and> revokedIds (transact (Tx demo_env 1 (RevokeId 9) []) (init 1 0)) 9
   \<and> events (transact (Tx demo_env 1 (SetIdFloor 10) []) (init 1 0)) = events (init 1 0) @ [IdFloorSet 10]
   \<and> idFloor (transact (Tx demo_env 1 (SetIdFloor 10) []) (init 1 0)) = 10
   \<and> transact (Tx demo_env 2 (RevokeId 9) []) (init 1 0) = init 1 0
   \<and> transact (Tx demo_env 2 (SetIdFloor 10) []) (init 1 0) = init 1 0"
proof -
  let ?r = "transact (Tx demo_env 1 (RevokeId 9) []) (init 1 0)"
  let ?f = "transact (Tx demo_env 1 (SetIdFloor 10) []) (init 1 0)"
  have a: "revokeId 1 9 (init 1 0) = Inr ?r"
    by (simp add: contract_defs)
  have b: "setIdFloor 1 10 (init 1 0) = Inr ?f"
    by (simp add: contract_defs)
  have c: "revokeId 2 9 (init 1 0) = Inl (Revert ''unauthorized to revoke id'')"
    by (simp add: contract_defs)
  have d: "setIdFloor 2 10 (init 1 0) = Inl (Revert ''unauthorized to set idFloor'')"
    by (simp add: contract_defs)
  note t1 = revoke_and_floor_events [where caller = 1 and tid = 9 and s = "init 1 0" and s' = ?r and e = demo_env and calls = "[]",
              THEN conjunct1, rule_format, OF a]
  note t2 = revoke_and_floor_events [where caller = 1 and floor = 10 and s = "init 1 0" and s' = ?f and e = demo_env and calls = "[]",
              THEN conjunct2, THEN conjunct1, rule_format, OF b]
  note t3 = revoke_and_floor_events
              [where caller = 2 and tid = 9 and s = "init 1 0" and e = demo_env and calls = "[]"
                 and err = "Revert ''unauthorized to revoke id''",
              THEN conjunct2, THEN conjunct2, THEN conjunct1, rule_format, OF c]
  note t4 = revoke_and_floor_events
              [where caller = 2 and floor = 10 and s = "init 1 0" and e = demo_env and calls = "[]"
                 and err = "Revert ''unauthorized to set idFloor''",
              THEN conjunct2, THEN conjunct2, THEN conjunct2, rule_format, OF d]
  show ?thesis
  proof (intro conjI)
    show "events ?r = events (init 1 0) @ [IdRevoked 9]"
      by (rule t1 [THEN conjunct1])
    show "revokedIds ?r 9"
      by (rule t1 [THEN conjunct2, THEN conjunct1])
    show "events ?f = events (init 1 0) @ [IdFloorSet 10]"
      by (rule t2 [THEN conjunct1])
    show "idFloor ?f = 10"
      by (rule t2 [THEN conjunct2, THEN conjunct1])
    show "transact (Tx demo_env 2 (RevokeId 9) []) (init 1 0) = init 1 0"
      by (rule t3)
    show "transact (Tx demo_env 2 (SetIdFloor 10) []) (init 1 0) = init 1 0"
      by (rule t4)
  qed
qed

subsection \<open>A floor raise touches no identifier\<close>

text \<open>
  C7. A successful \<open>setIdFloor\<close> to \<open>floor\<close> leaves the token owners (and so which
  identifiers are claimed), the revoked flags and the token URIs of all identifiers as
  they were. Afterwards \<open>vacant\<close> reverts with "tokenId below floor" for every
  unclaimed, unrevoked identifier below \<open>floor\<close>, and returns \<open>true\<close>, as it did before,
  for every unclaimed, unrevoked identifier at or above it.
\<close>

theorem setIdFloor_writes_no_token_state:
  assumes "setIdFloor caller floor s = Inr s'"
  shows "erc_owners s' = erc_owners s \<and> revokedIds s' = revokedIds s
     \<and> tokenURIs s' = tokenURIs s \<and> exists_token s' tid = exists_token s tid
     \<and> (\<not> exists_token s tid \<and> \<not> revokedIds s tid \<and> tid < floor \<longrightarrow>
          vacant s' tid = Inl (Revert ''tokenId below floor''))
     \<and> (\<not> exists_token s tid \<and> \<not> revokedIds s tid \<and> floor \<le> tid \<longrightarrow>
          vacant s tid = Inr True \<and> vacant s' tid = Inr True)"
proof -
  from setIdFloor_Inr [OF assms]
  have lt: "idFloor s < floor"
    and s': "s' = s\<lparr>idFloor := floor, events := events s @ [IdFloorSet floor]\<rparr>"
    by simp_all
  from s' have frame: "erc_owners s' = erc_owners s" "revokedIds s' = revokedIds s"
    "tokenURIs s' = tokenURIs s" "idFloor s' = floor"
    by simp_all
  then have ex: "exists_token s' tid = exists_token s tid"
    by (simp add: exists_token_def)
  have below: "vacant s' tid = Inl (Revert ''tokenId below floor'')"
    if "\<not> exists_token s tid \<and> \<not> revokedIds s tid \<and> tid < floor"
    using that frame ex by (simp add: vacant_def not_le)
  have above: "vacant s tid = Inr True \<and> vacant s' tid = Inr True"
    if "\<not> exists_token s tid \<and> \<not> revokedIds s tid \<and> floor \<le> tid"
    using that frame ex lt by (auto simp: vacant_def)
  from frame ex below above show ?thesis
    by blast
qed

theorem setIdFloor_writes_no_token_state_witness:
  "vacant (transact (Tx demo_env 1 (SetIdFloor 10) []) (init 1 0)) 3 = Inl (Revert ''tokenId below floor'')
   \<and> vacant (transact (Tx demo_env 1 (SetIdFloor 10) []) (init 1 0)) 7 = Inl (Revert ''tokenId below floor'')
   \<and> vacant (transact (Tx demo_env 1 (SetIdFloor 10) []) (init 1 0)) 12 = Inr True
   \<and> revokedIds (transact (Tx demo_env 1 (SetIdFloor 10) []) (init 1 0)) = revokedIds (init 1 0)
   \<and> erc_owners (transact (Tx demo_env 1 (SetIdFloor 10) []) (init 1 0)) = erc_owners (init 1 0)
   \<and> tokenURIs (transact (Tx demo_env 1 (SetIdFloor 10) []) (init 1 0)) = tokenURIs (init 1 0)"
proof -
  let ?f = "transact (Tx demo_env 1 (SetIdFloor 10) []) (init 1 0)"
  have b: "setIdFloor 1 10 (init 1 0) = Inr ?f"
    by (simp add: contract_defs)
  have h3: "\<not> exists_token (init 1 0) 3 \<and> \<not> revokedIds (init 1 0) 3 \<and> (3::uint256) < 10"
    by (simp add: init_def exists_token_def)
  have h7: "\<not> exists_token (init 1 0) 7 \<and> \<not> revokedIds (init 1 0) 7 \<and> (7::uint256) < 10"
    by (simp add: init_def exists_token_def)
  have h12: "\<not> exists_token (init 1 0) 12 \<and> \<not> revokedIds (init 1 0) 12 \<and> (10::uint256) \<le> 12"
    by (simp add: init_def exists_token_def)
  note t3 = setIdFloor_writes_no_token_state [OF b, of 3]
  note t7 = setIdFloor_writes_no_token_state [OF b, of 7]
  note t12 = setIdFloor_writes_no_token_state [OF b, of 12]
  show ?thesis
  proof (intro conjI)
    show "vacant ?f 3 = Inl (Revert ''tokenId below floor'')"
      by (rule t3 [THEN conjunct2, THEN conjunct2, THEN conjunct2, THEN conjunct2,
                   THEN conjunct1, rule_format, OF h3])
    show "vacant ?f 7 = Inl (Revert ''tokenId below floor'')"
      by (rule t7 [THEN conjunct2, THEN conjunct2, THEN conjunct2, THEN conjunct2,
                   THEN conjunct1, rule_format, OF h7])
    show "vacant ?f 12 = Inr True"
      by (rule t12 [THEN conjunct2, THEN conjunct2, THEN conjunct2, THEN conjunct2,
                    THEN conjunct2, rule_format, OF h12, THEN conjunct2])
    show "revokedIds ?f = revokedIds (init 1 0)"
      by (rule t3 [THEN conjunct2, THEN conjunct1])
    show "erc_owners ?f = erc_owners (init 1 0)"
      by (rule t3 [THEN conjunct1])
    show "tokenURIs ?f = tokenURIs (init 1 0)"
      by (rule t3 [THEN conjunct2, THEN conjunct2, THEN conjunct1])
  qed
qed

subsection \<open>Minting with an empty URI\<close>

text \<open>
  C8, as stated, for every recipient: the owner mints the vacant identifier 5 with an
  empty URI to the zero address. \<open>_mint\<close> runs the safe mint of the base before
  \<open>_setTokenURI\<close>, so the call reverts with the base contract's reason for the zero
  address and not with "tokenURI cannot be empty".
\<close>

theorem empty_uri_mint_to_zero_address_counterexample:
  "vacant (init 1 0) 5 = Inr True
   \<and> owner (init 1 0) = 1
   \<and> mintAuthorized demo_env (\<lambda>s1. s1) 1 0 5 [] (init 1 0)
       = Inl (Revert ''ERC721: mint to the zero address'')
   \<and> mintAuthorized demo_env (\<lambda>s1. s1) 1 0 5 [] (init 1 0)
       \<noteq> Inl (Revert ''tokenURI cannot be empty'')"
  by (simp add: contract_defs)

text \<open>
  C8, amended. A mint with an empty URI never succeeds, by \<open>mintAuthorized\<close> or by
  \<open>mint\<close>, and the transaction leaves the whole storage as it was (the identifier is not
  claimed, no URI is stored, the counter is not incremented). The reason is "tokenURI
  cannot be empty" whenever the checks that come before \<open>_setTokenURI\<close> pass: the caller
  is the owner (direct) or the signature recovers to the owner (lazy), the identifier is
  vacant, and the recipient is not the zero address and accepts the token. For the zero
  address, and for a recipient that does not accept the token, the safe mint of the base
  reverts first with its own reason, for any URI: "ERC721: mint to the zero address", the
  base contract's reason for a recipient that returns a wrong value, or the reason with
  which the recipient itself reverted.
\<close>

theorem empty_uri_is_rejected:
  "mintAuthorized e hook caller recipient tid [] s \<noteq> Inr s'
   \<and> mint e hook caller val tid [] sg s \<noteq> Inr s'
   \<and> transact (Tx e caller (MintAuthorized recipient tid []) calls) s = s
   \<and> transact (Tx e caller (Mint val tid [] sg) calls) s = s
   \<and> (caller = owner s \<and> vacant s tid = Inr True \<and> recipient \<noteq> 0
        \<and> checkOnERC721Received e 0 recipient tid = Inr True \<longrightarrow>
        mintAuthorized e hook caller recipient tid [] s = Inl (Revert ''tokenURI cannot be empty''))
   \<and> (recover e val tid [] sg = Inr (owner s) \<and> vacant s tid = Inr True \<and> caller \<noteq> 0
        \<and> checkOnERC721Received e 0 caller tid = Inr True \<longrightarrow>
        mint e hook caller val tid [] sg s = Inl (Revert ''tokenURI cannot be empty''))
   \<and> (caller = owner s \<and> vacant s tid = Inr True \<and> recipient = 0 \<longrightarrow>
        mintAuthorized e hook caller recipient tid uri s
          = Inl (Revert ''ERC721: mint to the zero address''))
   \<and> (caller = owner s \<and> vacant s tid = Inr True \<and> recipient \<noteq> 0
        \<and> checkOnERC721Received e 0 recipient tid = Inr False \<longrightarrow>
        mintAuthorized e hook caller recipient tid uri s
          = Inl (Revert ''ERC721: transfer to non ERC721Receiver implementer''))
   \<and> (caller = owner s \<and> vacant s tid = Inr True \<and> recipient \<noteq> 0
        \<and> checkOnERC721Received e 0 recipient tid = Inl err \<longrightarrow>
        mintAuthorized e hook caller recipient tid uri s = Inl err)
   \<and> (recover e val tid uri sg = Inr (owner s) \<and> vacant s tid = Inr True \<and> caller = 0 \<longrightarrow>
        mint e hook caller val tid uri sg s = Inl (Revert ''ERC721: mint to the zero address''))
   \<and> (recover e val tid uri sg = Inr (owner s) \<and> vacant s tid = Inr True \<and> caller \<noteq> 0
        \<and> checkOnERC721Received e 0 caller tid = Inr False \<longrightarrow>
        mint e hook caller val tid uri sg s
          = Inl (Revert ''ERC721: transfer to non ERC721Receiver implementer''))
   \<and> (recover e val tid uri sg = Inr (owner s) \<and> vacant s tid = Inr True \<and> caller \<noteq> 0
        \<and> checkOnERC721Received e 0 caller tid = Inl err \<longrightarrow>
        mint e hook caller val tid uri sg s = Inl err)"
proof -
  have no_mint: "internal_mint e hk r tid [] st \<noteq> Inr st'" for hk r st st'
    by (auto dest: internal_mint_Inr)
  have a: "mintAuthorized e hk caller recipient tid [] s \<noteq> Inr st'" for hk st'
    using no_mint by (auto dest: mintAuthorized_Inr)
  have b: "mint e hk caller val tid [] sg s \<noteq> Inr st'" for hk st'
    using no_mint by (auto dest: mint_Inr)
  have ta: "transact (Tx e caller (MintAuthorized recipient tid []) calls) s = s"
    using a by (auto simp: transact_def split: sum.splits)
  have tb: "transact (Tx e caller (Mint val tid [] sg) calls) s = s"
    using b by (auto simp: transact_def split: sum.splits)
  have im: "internal_mint e hook r tid [] st = Inl (Revert ''tokenURI cannot be empty'')"
    if "r \<noteq> 0" "\<not> exists_token st tid" "checkOnERC721Received e 0 r tid = Inr True" for r st
    using that
    by (simp add: internal_mint_def erc721_safeMint_def erc721_mint_def internal_setTokenURI_def)
  have zero: "internal_mint e hook 0 tid uri st = Inl (Revert ''ERC721: mint to the zero address'')"
    for st
    by (simp add: internal_mint_def erc721_safeMint_def erc721_mint_def)
  have wrong: "internal_mint e hook r tid uri st
                 = Inl (Revert ''ERC721: transfer to non ERC721Receiver implementer'')"
    if "r \<noteq> 0" "\<not> exists_token st tid" "checkOnERC721Received e 0 r tid = Inr False" for r st
    using that by (simp add: internal_mint_def erc721_safeMint_def erc721_mint_def)
  have own: "internal_mint e hook r tid uri st = Inl err"
    if "r \<noteq> 0" "\<not> exists_token st tid" "checkOnERC721Received e 0 r tid = Inl err" for r st
    using that by (simp add: internal_mint_def erc721_safeMint_def erc721_mint_def)
  have ex: "\<not> exists_token s tid" "\<not> exists_token (s\<lparr>balance := balance s + val\<rparr>) tid"
    if "vacant s tid = Inr True"
    using that by (auto simp: exists_token_def dest: vacant_Inr)
  have ma: "mintAuthorized e hook caller recipient tid u s = internal_mint e hook recipient tid u s"
    if "caller = owner s" "vacant s tid = Inr True" for u
    using that by (simp add: mintAuthorized_def)
  have mi: "mint e hook caller val tid u sg s
              = internal_mint e hook caller tid u (s\<lparr>balance := balance s + val\<rparr>)"
    if "recover e val tid u sg = Inr (owner s)" "vacant s tid = Inr True" for u
    using that by (simp add: mint_def mintable_def Let_def)
  show ?thesis
  proof (intro conjI impI)
    show "mintAuthorized e hook caller recipient tid [] s \<noteq> Inr s'"
      by (rule a)
    show "mint e hook caller val tid [] sg s \<noteq> Inr s'"
      by (rule b)
    show "transact (Tx e caller (MintAuthorized recipient tid []) calls) s = s"
      by (rule ta)
    show "transact (Tx e caller (Mint val tid [] sg) calls) s = s"
      by (rule tb)
  next
    assume h: "caller = owner s \<and> vacant s tid = Inr True \<and> recipient \<noteq> 0
        \<and> checkOnERC721Received e 0 recipient tid = Inr True"
    with ma [of "[]"] im [of recipient s] ex(1)
    show "mintAuthorized e hook caller recipient tid [] s = Inl (Revert ''tokenURI cannot be empty'')"
      by simp
  next
    assume h: "recover e val tid [] sg = Inr (owner s) \<and> vacant s tid = Inr True \<and> caller \<noteq> 0
        \<and> checkOnERC721Received e 0 caller tid = Inr True"
    with mi [of "[]"] im [of caller "s\<lparr>balance := balance s + val\<rparr>"] ex(2)
    show "mint e hook caller val tid [] sg s = Inl (Revert ''tokenURI cannot be empty'')"
      by simp
  next
    assume h: "caller = owner s \<and> vacant s tid = Inr True \<and> recipient = 0"
    with ma [of uri] zero [of s]
    show "mintAuthorized e hook caller recipient tid uri s
            = Inl (Revert ''ERC721: mint to the zero address'')"
      by simp
  next
    assume h: "caller = owner s \<and> vacant s tid = Inr True \<and> recipient \<noteq> 0
        \<and> checkOnERC721Received e 0 recipient tid = Inr False"
    with ma [of uri] wrong [of recipient s] ex(1)
    show "mintAuthorized e hook caller recipient tid uri s
            = Inl (Revert ''ERC721: transfer to non ERC721Receiver implementer'')"
      by simp
  next
    assume h: "caller = owner s \<and> vacant s tid = Inr True \<and> recipient \<noteq> 0
        \<and> checkOnERC721Received e 0 recipient tid = Inl err"
    with ma [of uri] own [of recipient s] ex(1)
    show "mintAuthorized e hook caller recipient tid uri s = Inl err"
      by simp
  next
    assume h: "recover e val tid uri sg = Inr (owner s) \<and> vacant s tid = Inr True \<and> caller = 0"
    with mi [of uri] zero [of "s\<lparr>balance := balance s + val\<rparr>"]
    show "mint e hook caller val tid uri sg s = Inl (Revert ''ERC721: mint to the zero address'')"
      by simp
  next
    assume h: "recover e val tid uri sg = Inr (owner s) \<and> vacant s tid = Inr True \<and> caller \<noteq> 0
        \<and> checkOnERC721Received e 0 caller tid = Inr False"
    with mi [of uri] wrong [of caller "s\<lparr>balance := balance s + val\<rparr>"] ex(2)
    show "mint e hook caller val tid uri sg s
            = Inl (Revert ''ERC721: transfer to non ERC721Receiver implementer'')"
      by simp
  next
    assume h: "recover e val tid uri sg = Inr (owner s) \<and> vacant s tid = Inr True \<and> caller \<noteq> 0
        \<and> checkOnERC721Received e 0 caller tid = Inl err"
    with mi [of uri] own [of caller "s\<lparr>balance := balance s + val\<rparr>"] ex(2)
    show "mint e hook caller val tid uri sg s = Inl err"
      by simp
  qed
qed


theorem empty_uri_is_rejected_witness:
  "mintAuthorized demo_env (\<lambda>s1. s1) 1 2 5 [] (init 1 0) = Inl (Revert ''tokenURI cannot be empty'')
   \<and> mint demo_env (\<lambda>s1. s1) 3 0 5 [] [1] (init 1 0) = Inl (Revert ''tokenURI cannot be empty'')
   \<and> transact (Tx demo_env 1 (MintAuthorized 2 5 []) []) (init 1 0) = init 1 0
   \<and> transact (Tx demo_env 3 (Mint 0 5 [] [1]) []) (init 1 0) = init 1 0
   \<and> mintAuthorized demo_env (\<lambda>s1. s1) 1 0 5 [] (init 1 0)
       = Inl (Revert ''ERC721: mint to the zero address'')
   \<and> mintAuthorized refusing_env (\<lambda>s1. s1) 1 2 5 [] (init 1 0)
       = Inl (Revert ''ERC721: transfer to non ERC721Receiver implementer'')
   \<and> mintAuthorized reverting_env (\<lambda>s1. s1) 1 2 5 [] (init 1 0)
       = Inl (Revert ''no tokens, please'')
   \<and> mint demo_env (\<lambda>s1. s1) 0 0 5 [] [1] (init 1 0)
       = Inl (Revert ''ERC721: mint to the zero address'')
   \<and> mint refusing_env (\<lambda>s1. s1) 3 0 5 [] [1] (init 1 0)
       = Inl (Revert ''ERC721: transfer to non ERC721Receiver implementer'')
   \<and> mint reverting_env (\<lambda>s1. s1) 3 0 5 [] [1] (init 1 0)
       = Inl (Revert ''no tokens, please'')"
proof -
  have h5: "1 = owner (init 1 0) \<and> vacant (init 1 0) 5 = Inr True \<and> (2::address) \<noteq> 0
        \<and> checkOnERC721Received demo_env 0 2 5 = Inr True"
    by (simp add: contract_defs)
  have h6: "recover demo_env 0 5 [] [1] = Inr (owner (init 1 0)) \<and> vacant (init 1 0) 5 = Inr True
        \<and> (3::address) \<noteq> 0 \<and> checkOnERC721Received demo_env 0 3 5 = Inr True"
    by (simp add: contract_defs)
  have h7: "1 = owner (init 1 0) \<and> vacant (init 1 0) 5 = Inr True \<and> (0::address) = 0"
    by (simp add: contract_defs)
  have h8: "1 = owner (init 1 0) \<and> vacant (init 1 0) 5 = Inr True \<and> (2::address) \<noteq> 0
        \<and> checkOnERC721Received refusing_env 0 2 5 = Inr False"
    by (simp add: contract_defs)
  have h9: "1 = owner (init 1 0) \<and> vacant (init 1 0) 5 = Inr True \<and> (2::address) \<noteq> 0
        \<and> checkOnERC721Received reverting_env 0 2 5 = Inl (Revert ''no tokens, please'')"
    by (simp add: contract_defs)
  have h10: "recover demo_env 0 5 [] [1] = Inr (owner (init 1 0)) \<and> vacant (init 1 0) 5 = Inr True
        \<and> (0::address) = 0"
    by (simp add: contract_defs)
  have h11: "recover refusing_env 0 5 [] [1] = Inr (owner (init 1 0))
        \<and> vacant (init 1 0) 5 = Inr True \<and> (3::address) \<noteq> 0
        \<and> checkOnERC721Received refusing_env 0 3 5 = Inr False"
    by (simp add: contract_defs)
  have h12: "recover reverting_env 0 5 [] [1] = Inr (owner (init 1 0))
        \<and> vacant (init 1 0) 5 = Inr True \<and> (3::address) \<noteq> 0
        \<and> checkOnERC721Received reverting_env 0 3 5 = Inl (Revert ''no tokens, please'')"
    by (simp add: contract_defs)
  note a = empty_uri_is_rejected
             [where e = demo_env and hook = "\<lambda>s1. s1" and caller = 1 and recipient = 2
                and tid = 5 and s = "init 1 0" and calls = "[]"]
  note z = empty_uri_is_rejected
             [where e = demo_env and hook = "\<lambda>s1. s1" and caller = 1 and recipient = 0
                and tid = 5 and s = "init 1 0" and uri = "[]"]
  note r = empty_uri_is_rejected
             [where e = refusing_env and hook = "\<lambda>s1. s1" and caller = 1 and recipient = 2
                and tid = 5 and s = "init 1 0" and uri = "[]"]
  note v = empty_uri_is_rejected
             [where e = reverting_env and hook = "\<lambda>s1. s1" and caller = 1 and recipient = 2
                and tid = 5 and s = "init 1 0" and uri = "[]"
                and err = "Revert ''no tokens, please''"]
  note l = empty_uri_is_rejected
             [where e = demo_env and hook = "\<lambda>s1. s1" and caller = 3 and val = 0 and sg = "[1]"
                and tid = 5 and s = "init 1 0" and calls = "[]"]
  note lz = empty_uri_is_rejected
             [where e = demo_env and hook = "\<lambda>s1. s1" and caller = 0 and val = 0 and sg = "[1]"
                and tid = 5 and s = "init 1 0" and uri = "[]"]
  note lr = empty_uri_is_rejected
             [where e = refusing_env and hook = "\<lambda>s1. s1" and caller = 3 and val = 0 and sg = "[1]"
                and tid = 5 and s = "init 1 0" and uri = "[]"]
  note lv = empty_uri_is_rejected
             [where e = reverting_env and hook = "\<lambda>s1. s1" and caller = 3 and val = 0 and sg = "[1]"
                and tid = 5 and s = "init 1 0" and uri = "[]"
                and err = "Revert ''no tokens, please''"]
  show ?thesis
  proof (intro conjI)
    show "mintAuthorized demo_env (\<lambda>s1. s1) 1 2 5 [] (init 1 0) = Inl (Revert ''tokenURI cannot be empty'')"
      by (rule a [THEN conjunct2, THEN conjunct2, THEN conjunct2, THEN conjunct2, THEN conjunct1, rule_format, OF h5])
    show "mint demo_env (\<lambda>s1. s1) 3 0 5 [] [1] (init 1 0) = Inl (Revert ''tokenURI cannot be empty'')"
      by (rule l [THEN conjunct2, THEN conjunct2, THEN conjunct2, THEN conjunct2, THEN conjunct2, THEN conjunct1, rule_format, OF h6])
    show "transact (Tx demo_env 1 (MintAuthorized 2 5 []) []) (init 1 0) = init 1 0"
      by (rule a [THEN conjunct2, THEN conjunct2, THEN conjunct1])
    show "transact (Tx demo_env 3 (Mint 0 5 [] [1]) []) (init 1 0) = init 1 0"
      by (rule l [THEN conjunct2, THEN conjunct2, THEN conjunct2, THEN conjunct1])
    show "mintAuthorized demo_env (\<lambda>s1. s1) 1 0 5 [] (init 1 0)
            = Inl (Revert ''ERC721: mint to the zero address'')"
      by (rule z [THEN conjunct2, THEN conjunct2, THEN conjunct2, THEN conjunct2, THEN conjunct2, THEN conjunct2, THEN conjunct1, rule_format, OF h7])
    show "mintAuthorized refusing_env (\<lambda>s1. s1) 1 2 5 [] (init 1 0)
            = Inl (Revert ''ERC721: transfer to non ERC721Receiver implementer'')"
      by (rule r [THEN conjunct2, THEN conjunct2, THEN conjunct2, THEN conjunct2, THEN conjunct2, THEN conjunct2, THEN conjunct2, THEN conjunct1, rule_format, OF h8])
    show "mintAuthorized reverting_env (\<lambda>s1. s1) 1 2 5 [] (init 1 0)
            = Inl (Revert ''no tokens, please'')"
      by (rule v [THEN conjunct2, THEN conjunct2, THEN conjunct2, THEN conjunct2, THEN conjunct2, THEN conjunct2, THEN conjunct2, THEN conjunct2, THEN conjunct1, rule_format, OF h9])
    show "mint demo_env (\<lambda>s1. s1) 0 0 5 [] [1] (init 1 0)
            = Inl (Revert ''ERC721: mint to the zero address'')"
      by (rule lz [THEN conjunct2, THEN conjunct2, THEN conjunct2, THEN conjunct2, THEN conjunct2, THEN conjunct2, THEN conjunct2, THEN conjunct2, THEN conjunct2, THEN conjunct1, rule_format, OF h10])
    show "mint refusing_env (\<lambda>s1. s1) 3 0 5 [] [1] (init 1 0)
            = Inl (Revert ''ERC721: transfer to non ERC721Receiver implementer'')"
      by (rule lr [THEN conjunct2, THEN conjunct2, THEN conjunct2, THEN conjunct2, THEN conjunct2, THEN conjunct2, THEN conjunct2, THEN conjunct2, THEN conjunct2, THEN conjunct2, THEN conjunct1, rule_format, OF h11])
    show "mint reverting_env (\<lambda>s1. s1) 3 0 5 [] [1] (init 1 0)
            = Inl (Revert ''no tokens, please'')"
      by (rule lv [THEN conjunct2, THEN conjunct2, THEN conjunct2, THEN conjunct2, THEN conjunct2, THEN conjunct2, THEN conjunct2, THEN conjunct2, THEN conjunct2, THEN conjunct2, THEN conjunct2, rule_format, OF h12])
  qed
qed

subsection \<open>Withdrawal\<close>

text \<open>
  C9, as stated: the owner is a contract that, while it is being paid the balance of 100,
  pays 1 back through \<open>receive\<close>. The withdrawal succeeds, the whole 100 was sent, and the
  balance afterwards is 1, not 0; the log holds the receipt before the withdrawal.
\<close>

theorem withdraw_paid_back_counterexample:
  "owner (init 1 100) = 1
   \<and> call_value demo_env 1 (balance (init 1 100))
   \<and> exec (Tx demo_env 1 Withdraw [Tx demo_env 1 (Receive 1) []]) (init 1 100)
       = Inr (transact (Tx demo_env 1 Withdraw [Tx demo_env 1 (Receive 1) []]) (init 1 100))
   \<and> sent (transact (Tx demo_env 1 Withdraw [Tx demo_env 1 (Receive 1) []]) (init 1 100))
       = [(1, 100)]
   \<and> balance (transact (Tx demo_env 1 Withdraw [Tx demo_env 1 (Receive 1) []]) (init 1 100)) = 1
   \<and> balance (transact (Tx demo_env 1 Withdraw [Tx demo_env 1 (Receive 1) []]) (init 1 100)) \<noteq> 0
   \<and> events (transact (Tx demo_env 1 Withdraw [Tx demo_env 1 (Receive 1) []]) (init 1 100))
       = [Receipt 1, Withdrawal 100]"
  by (simp add: contract_defs)

text \<open>
  C9, amended. \<open>withdraw\<close> called by anyone but the owner reverts with "unauthorized to
  withdraw", and when the value transfer reports failure it reverts with "transfer
  failed"; either way the storage, the balance included, is as before. Called by the
  owner when the value transfer succeeds, it sends the whole balance to the owner (the
  payment is in \<open>sent\<close> whatever the owner does), and the storage afterwards is what the
  owner's calls back, made while it was being paid, left of a balance of 0, with the event
  \<open>Withdrawal\<close> carrying the amount sent appended last. When the owner makes no call
  back, the balance is exactly 0 and that event is the only new one.
\<close>

theorem withdraw_all_or_nothing:
  "(caller \<noteq> owner s \<longrightarrow>
      exec (Tx e caller Withdraw calls) s = Inl (Revert ''unauthorized to withdraw'')
      \<and> transact (Tx e caller Withdraw calls) s = s)
   \<and> (caller = owner s \<and> \<not> call_value e caller (balance s) \<longrightarrow>
      exec (Tx e caller Withdraw calls) s = Inl (Revert ''transfer failed'')
      \<and> transact (Tx e caller Withdraw calls) s = s)
   \<and> (caller = owner s \<and> call_value e caller (balance s) \<longrightarrow>
      exec (Tx e caller Withdraw calls) s = Inr (transact (Tx e caller Withdraw calls) s)
      \<and> transact (Tx e caller Withdraw calls) s
          = (run calls (s\<lparr>balance := 0, sent := sent s @ [(owner s, balance s)]\<rparr>))
              \<lparr>events := events (run calls (s\<lparr>balance := 0,
                                               sent := sent s @ [(owner s, balance s)]\<rparr>))
                          @ [Withdrawal (balance s)]\<rparr>
      \<and> (\<exists>more. sent (transact (Tx e caller Withdraw calls) s)
                   = sent s @ [(owner s, balance s)] @ more)
      \<and> last (events (transact (Tx e caller Withdraw calls) s)) = Withdrawal (balance s))
   \<and> (caller = owner s \<and> call_value e caller (balance s) \<longrightarrow>
      balance (transact (Tx e caller Withdraw []) s) = 0
      \<and> sent (transact (Tx e caller Withdraw []) s) = sent s @ [(owner s, balance s)]
      \<and> events (transact (Tx e caller Withdraw []) s) = events s @ [Withdrawal (balance s)])"
proof -
  have more: "\<exists>more. sent (run calls (s\<lparr>balance := 0, sent := sent s @ [(owner s, balance s)]\<rparr>))
                 = sent s @ [(owner s, balance s)] @ more"
    using run_sent [of calls "s\<lparr>balance := 0, sent := sent s @ [(owner s, balance s)]\<rparr>"]
    by simp
  then show ?thesis
    by (simp add: withdraw_def transact_def Let_def)
qed

theorem withdraw_all_or_nothing_witness:
  "exec (Tx demo_env 2 Withdraw []) (init 1 100) = Inl (Revert ''unauthorized to withdraw'')
   \<and> balance (transact (Tx demo_env 2 Withdraw []) (init 1 100)) = 100
   \<and> exec (Tx rejecting_env 1 Withdraw []) (init 1 100) = Inl (Revert ''transfer failed'')
   \<and> balance (transact (Tx rejecting_env 1 Withdraw []) (init 1 100)) = 100
   \<and> balance (transact (Tx demo_env 1 Withdraw []) (init 1 100)) = 0
   \<and> sent (transact (Tx demo_env 1 Withdraw []) (init 1 100)) = [(1, 100)]
   \<and> events (transact (Tx demo_env 1 Withdraw []) (init 1 100)) = [Withdrawal 100]
   \<and> last (events (transact (Tx demo_env 1 Withdraw [Tx demo_env 1 (Receive 1) []]) (init 1 100)))
       = Withdrawal 100"
proof -
  have h1: "(2::address) \<noteq> owner (init 1 100)"
    by (simp add: init_def)
  have h2: "1 = owner (init 1 100) \<and> \<not> call_value rejecting_env 1 (balance (init 1 100))"
    by (simp add: init_def demo_env_def rejecting_env_def)
  have h3: "1 = owner (init 1 100) \<and> call_value demo_env 1 (balance (init 1 100))"
    by (simp add: init_def demo_env_def)
  note t1 = withdraw_all_or_nothing
              [where caller = 2 and s = "init 1 100" and e = demo_env and calls = "[]",
               THEN conjunct1, rule_format, OF h1]
  note t2 = withdraw_all_or_nothing
              [where caller = 1 and s = "init 1 100" and e = rejecting_env and calls = "[]",
               THEN conjunct2, THEN conjunct1, rule_format, OF h2]
  note t3 = withdraw_all_or_nothing
              [where caller = 1 and s = "init 1 100" and e = demo_env
                 and calls = "[Tx demo_env 1 (Receive 1) []]",
               THEN conjunct2, THEN conjunct2, THEN conjunct1, rule_format, OF h3]
  note t4 = withdraw_all_or_nothing
              [where caller = 1 and s = "init 1 100" and e = demo_env,
               THEN conjunct2, THEN conjunct2, THEN conjunct2, rule_format, OF h3]
  have i: "balance (init 1 100) = 100" "sent (init 1 100) = []" "events (init 1 100) = []"
    "owner (init 1 100) = 1"
    by (simp_all add: init_def)
  show ?thesis
  proof (intro conjI)
    show "exec (Tx demo_env 2 Withdraw []) (init 1 100) = Inl (Revert ''unauthorized to withdraw'')"
      by (rule t1 [THEN conjunct1])
    show "balance (transact (Tx demo_env 2 Withdraw []) (init 1 100)) = 100"
      using t1 [THEN conjunct2] i(1) by simp
    show "exec (Tx rejecting_env 1 Withdraw []) (init 1 100) = Inl (Revert ''transfer failed'')"
      by (rule t2 [THEN conjunct1])
    show "balance (transact (Tx rejecting_env 1 Withdraw []) (init 1 100)) = 100"
      using t2 [THEN conjunct2] i(1) by simp
    show "balance (transact (Tx demo_env 1 Withdraw []) (init 1 100)) = 0"
      by (rule t4 [THEN conjunct1])
    show "sent (transact (Tx demo_env 1 Withdraw []) (init 1 100)) = [(1, 100)]"
      using t4 [THEN conjunct2, THEN conjunct1] i by simp
    show "events (transact (Tx demo_env 1 Withdraw []) (init 1 100)) = [Withdrawal 100]"
      using t4 [THEN conjunct2, THEN conjunct2] i by simp
    show "last (events (transact (Tx demo_env 1 Withdraw [Tx demo_env 1 (Receive 1) []]) (init 1 100)))
            = Withdrawal 100"
      using t3 [THEN conjunct2, THEN conjunct2, THEN conjunct2] i(1) by simp
  qed
qed

subsection \<open>The URI of an unclaimed identifier\<close>

text \<open>
  C10 says that \<open>tokenURI\<close> returns the empty string for every identifier that is not
  claimed, and from a burn on. \<open>_burn\<close> deletes the URI, but \<open>_mint\<close> writes the URI
  after the recipient has been called: a recipient that burns the token it is receiving
  leaves an identifier that does not exist, is revoked for good, and has the URI of the
  mint. Here account 1 has deployed the contract and minted token 1; it then mints token 5
  to the contract account 7, which burns it in \<open>onERC721Received\<close>. The mint succeeds,
  token 5 does not exist, and \<open>tokenURI\<close> returns its URI; the counter is right. When
  account 7 burns the token in a transaction of its own instead, the URI is empty.
\<close>

theorem uri_survives_burn_in_hook:
  "exec (Tx demo_env 1 (MintAuthorized 7 5 ''ipfs://x'') [Tx demo_env 7 (Burn 5) []])
        (transact (Tx demo_env 1 (MintAuthorized 2 1 ''ipfs://a'') []) (init 1 0))
     = Inr (run [Tx demo_env 1 (MintAuthorized 2 1 ''ipfs://a'') [],
                 Tx demo_env 1 (MintAuthorized 7 5 ''ipfs://x'') [Tx demo_env 7 (Burn 5) []]]
                (init 1 0))
   \<and> \<not> exists_token (run [Tx demo_env 1 (MintAuthorized 2 1 ''ipfs://a'') [],
                 Tx demo_env 1 (MintAuthorized 7 5 ''ipfs://x'') [Tx demo_env 7 (Burn 5) []]]
                (init 1 0)) 5
   \<and> revokedIds (run [Tx demo_env 1 (MintAuthorized 2 1 ''ipfs://a'') [],
                 Tx demo_env 1 (MintAuthorized 7 5 ''ipfs://x'') [Tx demo_env 7 (Burn 5) []]]
                (init 1 0)) 5
   \<and> tokenURI (run [Tx demo_env 1 (MintAuthorized 2 1 ''ipfs://a'') [],
                 Tx demo_env 1 (MintAuthorized 7 5 ''ipfs://x'') [Tx demo_env 7 (Burn 5) []]]
                (init 1 0)) 5 = Inr ''ipfs://x''
   \<and> totalSupply (run [Tx demo_env 1 (MintAuthorized 2 1 ''ipfs://a'') [],
                 Tx demo_env 1 (MintAuthorized 7 5 ''ipfs://x'') [Tx demo_env 7 (Burn 5) []]]
                (init 1 0)) = 1
   \<and> tokenURI (run [Tx demo_env 1 (MintAuthorized 2 1 ''ipfs://a'') [],
                 Tx demo_env 1 (MintAuthorized 7 5 ''ipfs://x'') [],
                 Tx demo_env 7 (Burn 5) []]
                (init 1 0)) 5 = Inr []"
  by (simp add: contract_defs)

end
